theory Spec2Isabelle
  imports Complex_Main
begin

section \<open>HLSL values\<close>

text \<open>
  The shaders compute on 32-bit floats. They are modelled over the reals: every theorem
  below is about which branch is taken, which texel is read and which formula combines
  the terms, not about rounding. A vector is a tuple, a texture bound with its sampler is
  the function from the sampled location to the colour read there.
  Where HLSL gives NaN or infinity (division by zero, normalising the zero vector) the
  model gives HOL's value of the division, 0; no theorem below relies on such a value
  except where its statement excludes the case.
\<close>

type_synonym float2 = "real \<times> real"
type_synonym float3 = "real \<times> real \<times> real"
type_synonym float4 = "real \<times> real \<times> real \<times> real"
type_synonym float4x4 = "float4 \<times> float4 \<times> float4 \<times> float4"
type_synonym Texture2D = "float2 \<Rightarrow> float4"

definition zero3 :: float3 where
  "zero3 = (0, 0, 0)"

fun add3 :: "float3 \<Rightarrow> float3 \<Rightarrow> float3" where
  "add3 (a1, a2, a3) (b1, b2, b3) = (a1 + b1, a2 + b2, a3 + b3)"

fun sub3 :: "float3 \<Rightarrow> float3 \<Rightarrow> float3" where
  "sub3 (a1, a2, a3) (b1, b2, b3) = (a1 - b1, a2 - b2, a3 - b3)"

fun neg3 :: "float3 \<Rightarrow> float3" where
  "neg3 (a1, a2, a3) = (- a1, - a2, - a3)"

text \<open>float3 * float3 and float3 / float3 work component by component.\<close>

fun mul3 :: "float3 \<Rightarrow> float3 \<Rightarrow> float3" where
  "mul3 (a1, a2, a3) (b1, b2, b3) = (a1 * b1, a2 * b2, a3 * b3)"

fun div3 :: "float3 \<Rightarrow> float3 \<Rightarrow> float3" where
  "div3 (a1, a2, a3) (b1, b2, b3) = (a1 / b1, a2 / b2, a3 / b3)"

text \<open>float3 * float and float3 / float.\<close>

fun scale3 :: "float3 \<Rightarrow> real \<Rightarrow> float3" where
  "scale3 (a1, a2, a3) s = (a1 * s, a2 * s, a3 * s)"

fun divs3 :: "float3 \<Rightarrow> real \<Rightarrow> float3" where
  "divs3 (a1, a2, a3) s = (a1 / s, a2 / s, a3 / s)"

text \<open>A scalar assigned to a float3 is copied into every component.\<close>

definition splat3 :: "real \<Rightarrow> float3" where
  "splat3 s = (s, s, s)"

fun dot3 :: "float3 \<Rightarrow> float3 \<Rightarrow> real" where
  "dot3 (a1, a2, a3) (b1, b2, b3) = a1 * b1 + a2 * b2 + a3 * b3"

fun dot4 :: "float4 \<Rightarrow> float4 \<Rightarrow> real" where
  "dot4 (a1, a2, a3, a4) (b1, b2, b3, b4) = a1 * b1 + a2 * b2 + a3 * b3 + a4 * b4"

definition length3 :: "float3 \<Rightarrow> real" where
  "length3 v = sqrt (dot3 v v)"

definition normalize3 :: "float3 \<Rightarrow> float3" where
  "normalize3 v = divs3 v (length3 v)"

text \<open>\<open>mul(M, v)\<close> with the matrix first: the vector is a column, each row gives a component.\<close>

fun mul4x4 :: "float4x4 \<Rightarrow> float4 \<Rightarrow> float4" where
  "mul4x4 (r1, r2, r3, r4) v = (dot4 r1 v, dot4 r2 v, dot4 r3 v, dot4 r4 v)"

text \<open>\<open>pow\<close> is only applied to a base that is \<open>max(..., 0)\<close>, so never negative.\<close>

definition pow :: "real \<Rightarrow> real \<Rightarrow> real" where
  "pow b e = b powr e"

fun float4_of :: "float3 \<Rightarrow> real \<Rightarrow> float4" where
  "float4_of (a1, a2, a3) a4 = (a1, a2, a3, a4)"

fun rgb :: "float4 \<Rightarrow> float3" where
  "rgb (r, g, b, a) = (r, g, b)"

fun red :: "float4 \<Rightarrow> real" where
  "red (r, g, b, a) = r"

fun green :: "float4 \<Rightarrow> real" where
  "green (r, g, b, a) = g"

fun blue :: "float4 \<Rightarrow> real" where
  "blue (r, g, b, a) = b"

fun alpha :: "float4 \<Rightarrow> real" where
  "alpha (r, g, b, a) = a"

section \<open>Constant buffer and shader inputs\<close>

text \<open>
  The per-frame constants as the shaders name them (the C++ side is \<open>PerFrameConstants\<close>
  of Common.h, whose padding fields carry nothing). The shader-side declarations
  (Common.hlsli) are not part of the sources at hand; the fields are the ones the shaders
  read, under the names they read them by.
\<close>

record PerFrameConstants =
  gViewMatrix :: float4x4
  gProjectionMatrix :: float4x4
  gViewProjectionMatrix :: float4x4
  gLight1Position :: float3
  gLight1Colour :: float3
  gLight1Facing :: float3
  gLight1CosHalfAngle :: real
  gLight1ViewMatrix :: float4x4
  gLight1ProjectionMatrix :: float4x4
  gLight2Position :: float3
  gLight2Colour :: float3
  gLight2Facing :: float3
  gLight2CosHalfAngle :: real
  gLight2ViewMatrix :: float4x4
  gLight2ProjectionMatrix :: float4x4
  gAmbientColour :: float3
  gSpecularPower :: real
  gCameraPosition :: float3
  wiggle :: real
  shift :: real
  fading :: real

record LightingPixelShaderInput =
  worldPosition :: float3
  worldNormal :: float3
  uv :: float2

record SimplePixelShaderInput =
  suv :: float2

section \<open>ShadowMapping_ps: per-pixel lighting with two shadow-mapped spotlights\<close>

text \<open>
  The two steps both light blocks apply to the pixel's position in the light's clip space:
  the texture coordinate (perspective divide, from -1..1 to 0..1, then the V flip) and the
  depth seen from the light. The \<open>DepthAdjust\<close> constant of the shader is declared and
  never used (its subtraction is commented out), so it has no counterpart here.
\<close>

fun shadowMapUV_of :: "float4 \<Rightarrow> float2" where
  "shadowMapUV_of (px, py, pz, pw) =
     (let shadowMapUV = (0.5 * px / pw + 0.5, 0.5 * py / pw + 0.5)
      in (fst shadowMapUV, 1 - snd shadowMapUV))"

fun depthFromLight_of :: "float4 \<Rightarrow> real" where
  "depthFromLight_of (px, py, pz, pw) = pz / pw"

definition light1Direction_of :: "PerFrameConstants \<Rightarrow> LightingPixelShaderInput \<Rightarrow> float3" where
  "light1Direction_of c inp = normalize3 (sub3 (gLight1Position c) (worldPosition inp))"

definition light2Direction_of :: "PerFrameConstants \<Rightarrow> LightingPixelShaderInput \<Rightarrow> float3" where
  "light2Direction_of c inp = normalize3 (sub3 (gLight2Position c) (worldPosition inp))"

definition light1Projection_of :: "PerFrameConstants \<Rightarrow> LightingPixelShaderInput \<Rightarrow> float4" where
  "light1Projection_of c inp =
     (let light1ViewPosition = mul4x4 (gLight1ViewMatrix c) (float4_of (worldPosition inp) 1)
      in mul4x4 (gLight1ProjectionMatrix c) light1ViewPosition)"

definition light2Projection_of :: "PerFrameConstants \<Rightarrow> LightingPixelShaderInput \<Rightarrow> float4" where
  "light2Projection_of c inp =
     (let light2ViewPosition = mul4x4 (gLight2ViewMatrix c) (float4_of (worldPosition inp) 1)
      in mul4x4 (gLight2ProjectionMatrix c) light2ViewPosition)"

text \<open>
  The LIGHT 1 block: the pair (diffuseLight1, specularLight1). Both start at 0 and are
  assigned only inside the two nested tests. \<open>inp\<close> is the input after its normal has
  been renormalised.
\<close>

definition ShadowMapping_light1 ::
  "PerFrameConstants \<Rightarrow> Texture2D \<Rightarrow> LightingPixelShaderInput \<Rightarrow> float3 \<Rightarrow> float3 \<times> float3" where
  "ShadowMapping_light1 c ShadowMapLight1 inp cameraDirection =
     (let light1Direction = light1Direction_of c inp
      in if dot3 light1Direction (neg3 (gLight1Facing c)) > gLight1CosHalfAngle c
         then
           (let light1Projection = light1Projection_of c inp;
                shadowMapUV = shadowMapUV_of light1Projection;
                depthFromLight = depthFromLight_of light1Projection
            in if depthFromLight < red (ShadowMapLight1 shadowMapUV)
               then
                 (let light1Dist = splat3 (length3 (sub3 (gLight1Position c) (worldPosition inp)));
                      diffuseLight1 =
                        div3 (scale3 (gLight1Colour c)
                                (max (dot3 (worldNormal inp) light1Direction) 0)) light1Dist;
                      halfway = normalize3 (add3 light1Direction cameraDirection);
                      specularLight1 =
                        scale3 diffuseLight1
                          (pow (max (dot3 (worldNormal inp) halfway) 0) (gSpecularPower c))
                  in (diffuseLight1, specularLight1))
               else (zero3, zero3))
         else (zero3, zero3))"

text \<open>The LIGHT 2 block, the same steps on the second light's constants and shadow map.\<close>

definition ShadowMapping_light2 ::
  "PerFrameConstants \<Rightarrow> Texture2D \<Rightarrow> LightingPixelShaderInput \<Rightarrow> float3 \<Rightarrow> float3 \<times> float3" where
  "ShadowMapping_light2 c ShadowMapLight2 inp cameraDirection =
     (let light2Direction = light2Direction_of c inp
      in if dot3 light2Direction (neg3 (gLight2Facing c)) > gLight2CosHalfAngle c
         then
           (let light2Projection = light2Projection_of c inp;
                shadowMapUV = shadowMapUV_of light2Projection;
                depthFromLight = depthFromLight_of light2Projection
            in if depthFromLight < red (ShadowMapLight2 shadowMapUV)
               then
                 (let light2Dist = splat3 (length3 (sub3 (gLight2Position c) (worldPosition inp)));
                      diffuseLight2 =
                        div3 (scale3 (gLight2Colour c)
                                (max (dot3 (worldNormal inp) light2Direction) 0)) light2Dist;
                      halfway = normalize3 (add3 light2Direction cameraDirection);
                      specularLight2 =
                        scale3 diffuseLight2
                          (pow (max (dot3 (worldNormal inp) halfway) 0) (gSpecularPower c))
                  in (diffuseLight2, specularLight2))
               else (zero3, zero3))
         else (zero3, zero3))"

definition renormalise :: "LightingPixelShaderInput \<Rightarrow> LightingPixelShaderInput" where
  "renormalise inp = inp\<lparr>worldNormal := normalize3 (worldNormal inp)\<rparr>"

definition cameraDirection_of :: "PerFrameConstants \<Rightarrow> LightingPixelShaderInput \<Rightarrow> float3" where
  "cameraDirection_of c inp = normalize3 (sub3 (gCameraPosition c) (worldPosition inp))"

definition ShadowMapping_ps ::
  "PerFrameConstants \<Rightarrow> Texture2D \<Rightarrow> Texture2D \<Rightarrow> Texture2D \<Rightarrow> LightingPixelShaderInput \<Rightarrow> float4" where
  "ShadowMapping_ps c DiffuseSpecularMap ShadowMapLight1 ShadowMapLight2 input0 =
     (let inp = renormalise input0;
          cameraDirection = cameraDirection_of c inp;
          (diffuseLight1, specularLight1) = ShadowMapping_light1 c ShadowMapLight1 inp cameraDirection;
          (diffuseLight2, specularLight2) = ShadowMapping_light2 c ShadowMapLight2 inp cameraDirection;
          diffuseLight = add3 (add3 (gAmbientColour c) diffuseLight1) diffuseLight2;
          specularLight = add3 specularLight1 specularLight2;
          textureColour = DiffuseSpecularMap (uv inp);
          diffuseMaterialColour = rgb textureColour;
          specularMaterialColour = alpha textureColour;
          finalColour = add3 (mul3 diffuseLight diffuseMaterialColour)
                             (scale3 specularLight specularMaterialColour)
      in float4_of finalColour 1)"

section \<open>CellShading_ps: lighting quantised through the cell map\<close>

text \<open>
  The cell map is a Texture2D sampled at a scalar: HLSL copies the scalar into both
  coordinates of the location. Neither light block has a cone test or a shadow test.
\<close>

definition CellShading_light1 ::
  "PerFrameConstants \<Rightarrow> Texture2D \<Rightarrow> LightingPixelShaderInput \<Rightarrow> float3 \<Rightarrow> float3 \<times> float3" where
  "CellShading_light1 c CellMap inp cameraDirection =
     (let light1Vector = sub3 (gLight1Position c) (worldPosition inp);
          light1Distance = length3 light1Vector;
          light1Direction = divs3 light1Vector light1Distance;
          diffuseLevel1 = max (dot3 (worldNormal inp) light1Direction) 0;
          cellDiffuseLevel1 = red (CellMap (diffuseLevel1, diffuseLevel1));
          diffuseLight1 = divs3 (scale3 (gLight1Colour c) cellDiffuseLevel1) light1Distance;
          halfway = normalize3 (add3 light1Direction cameraDirection);
          specularLight1 =
            scale3 diffuseLight1 (pow (max (dot3 (worldNormal inp) halfway) 0) (gSpecularPower c))
      in (diffuseLight1, specularLight1))"

definition CellShading_light2 ::
  "PerFrameConstants \<Rightarrow> Texture2D \<Rightarrow> LightingPixelShaderInput \<Rightarrow> float3 \<Rightarrow> float3 \<times> float3" where
  "CellShading_light2 c CellMap inp cameraDirection =
     (let light2Vector = sub3 (gLight2Position c) (worldPosition inp);
          light2Distance = length3 light2Vector;
          light2Direction = divs3 light2Vector light2Distance;
          diffuseLevel2 = max (dot3 (worldNormal inp) light2Direction) 0;
          cellDiffuseLevel2 = red (CellMap (diffuseLevel2, diffuseLevel2));
          diffuseLight2 = divs3 (scale3 (gLight2Colour c) cellDiffuseLevel2) light2Distance;
          halfway = normalize3 (add3 light2Direction cameraDirection);
          specularLight2 =
            scale3 diffuseLight2 (pow (max (dot3 (worldNormal inp) halfway) 0) (gSpecularPower c))
      in (diffuseLight2, specularLight2))"

definition CellShading_ps ::
  "PerFrameConstants \<Rightarrow> Texture2D \<Rightarrow> Texture2D \<Rightarrow> LightingPixelShaderInput \<Rightarrow> float4" where
  "CellShading_ps c DiffuseMap CellMap input0 =
     (let inp = renormalise input0;
          cameraDirection = cameraDirection_of c inp;
          (diffuseLight1, specularLight1) = CellShading_light1 c CellMap inp cameraDirection;
          (diffuseLight2, specularLight2) = CellShading_light2 c CellMap inp cameraDirection;
          textureColour = DiffuseMap (uv inp);
          diffuseMaterialColour = rgb textureColour;
          specularMaterialColour = alpha textureColour;
          finalColour =
            add3 (mul3 (add3 (add3 (gAmbientColour c) diffuseLight1) diffuseLight2)
                       diffuseMaterialColour)
                 (scale3 (add3 specularLight1 specularLight2) specularMaterialColour)
      in float4_of finalColour 1)"

section \<open>Scrolling_ps\<close>

text \<open>
  The sampled float4 is assigned to a float3, which keeps its first three components;
  the three channels are then scaled one by one and alpha is set.
\<close>

definition Scrolling_ps :: "PerFrameConstants \<Rightarrow> Texture2D \<Rightarrow> SimplePixelShaderInput \<Rightarrow> float4" where
  "Scrolling_ps c DiffuseMap input0 =
     (let inp = input0\<lparr>suv := (fst (suv input0), snd (suv input0) + shift c)\<rparr>;
          textureColour = rgb (DiffuseMap (suv inp));
          (r, g, b) = textureColour
      in (r * 0.3, g * 0.7, b * 0.2, 1))"

section \<open>The device context and the commands of a frame (Scene.cpp)\<close>

text \<open>
  The objects the commands name: the views, shaders, states and samplers are the globals
  of the same names (without the leading g). \<open>Render\<close> of a model is one draw of its
  mesh; the body of \<open>Model::Render\<close> is not part of the sources at hand.
\<close>

datatype RenderTargetView = BackBufferRenderTarget
datatype DepthStencilView = ShadowMap1DepthStencil | ShadowMap2DepthStencil | DepthStencil
datatype ShaderResourceView =
    ShadowMap1SRV | ShadowMap2SRV | CellMapSRV
  | TeapotDiffuseSpecularMapSRV | SphereDiffuseSpecularMapSRV | CubeDiffuseSpecularMapSRV
  | FloorDiffuseSpecularMapSRV | LightDiffuseMapSRV | TrollDiffuseMapSRV
datatype VertexShader =
    PixelLightingVertexShader | BasicTransformVertexShader | WigglingVertexShader
  | CellShadingVertexShader | CellShadingOutlineVertexShader
datatype PixelShader =
    PixelLightingPixelShader | LightModelPixelShader | DepthOnlyPixelShader
  | ScrollingPixelShader | MixingTexturesPixelShader
  | CellShadingPixelShader | CellShadingOutlinePixelShader
datatype BlendState = NoBlendingState | AdditiveBlendingState
datatype DepthStencilState = UseDepthBufferState | DepthReadOnlyState
datatype RasterizerState = CullBackState | CullFrontState | CullNoneState
datatype SamplerState = Anisotropic4xSampler | PointSampler
datatype Model = Teapot | Sphere | Cube | Floor | Troll | LightModel nat
datatype ViewSource = FromLight nat | FromCamera

text \<open>
  The calls a frame makes on the immediate context and the swap chain, in the order the
  code makes them. \<open>UpdateConstantBuffer\<close> uploads the per-frame constants with the view
  and projection of the given source; \<open>SetObjectColour i\<close> is the assignment of light
  \<open>i\<close>'s colour to the per-model constants before its marker is drawn.
\<close>

datatype Command =
    RSSetViewports nat nat
  | OMSetRenderTargets "RenderTargetView option" "DepthStencilView option"
  | ClearDepthStencilView DepthStencilView real
  | ClearRenderTargetView RenderTargetView
  | UpdateConstantBuffer ViewSource
  | VSSetConstantBuffers nat
  | PSSetConstantBuffers nat
  | VSSetShader VertexShader
  | PSSetShader PixelShader
  | OMSetBlendState BlendState
  | OMSetDepthStencilState DepthStencilState
  | RSSetState RasterizerState
  | PSSetShaderResources nat "ShaderResourceView option"
  | PSSetSamplers nat SamplerState
  | SetObjectColour nat
  | Render Model
  | Present nat

text \<open>What is bound on the context when a draw is issued.\<close>

record Context =
  viewport :: "(nat \<times> nat) option"
  renderTarget :: "RenderTargetView option"
  depthStencil :: "DepthStencilView option"
  perFrameConstants :: "ViewSource option"
  vertexShader :: "VertexShader option"
  pixelShader :: "PixelShader option"
  blendState :: "BlendState option"
  depthStencilState :: "DepthStencilState option"
  rasterizerState :: "RasterizerState option"
  shaderResources :: "nat \<Rightarrow> ShaderResourceView option"
  samplers :: "nat \<Rightarrow> SamplerState option"

fun step :: "Command \<Rightarrow> Context \<Rightarrow> Context" where
  "step (RSSetViewports w h) s = s\<lparr>viewport := Some (w, h)\<rparr>"
| "step (OMSetRenderTargets rt ds) s = s\<lparr>renderTarget := rt, depthStencil := ds\<rparr>"
| "step (ClearDepthStencilView ds d) s = s"
| "step (ClearRenderTargetView rt) s = s"
| "step (UpdateConstantBuffer src) s = s\<lparr>perFrameConstants := Some src\<rparr>"
| "step (VSSetConstantBuffers n) s = s"
| "step (PSSetConstantBuffers n) s = s"
| "step (VSSetShader vs) s = s\<lparr>vertexShader := Some vs\<rparr>"
| "step (PSSetShader ps) s = s\<lparr>pixelShader := Some ps\<rparr>"
| "step (OMSetBlendState b) s = s\<lparr>blendState := Some b\<rparr>"
| "step (OMSetDepthStencilState d) s = s\<lparr>depthStencilState := Some d\<rparr>"
| "step (RSSetState r) s = s\<lparr>rasterizerState := Some r\<rparr>"
| "step (PSSetShaderResources slot v) s = s\<lparr>shaderResources := (shaderResources s)(slot := v)\<rparr>"
| "step (PSSetSamplers slot v) s = s\<lparr>samplers := (samplers s)(slot := Some v)\<rparr>"
| "step (SetObjectColour i) s = s"
| "step (Render m) s = s"
| "step (Present n) s = s"

fun exec :: "Command list \<Rightarrow> Context \<Rightarrow> Context" where
  "exec [] s = s"
| "exec (c # cs) s = exec cs (step c s)"

fun states :: "Command list \<Rightarrow> Context \<Rightarrow> Context list" where
  "states [] s = [s]"
| "states (c # cs) s = s # states cs (step c s)"

text \<open>
  What a command stream does to its targets: the clears, the draws (each with the context
  it was issued under) and the presents, in order.
\<close>

datatype Event =
    DepthCleared DepthStencilView real
  | ColourCleared RenderTargetView
  | Drawn Model Context
  | Presented nat

fun event_of :: "Command \<Rightarrow> Context \<Rightarrow> Event option" where
  "event_of (ClearDepthStencilView ds d) s = Some (DepthCleared ds d)"
| "event_of (ClearRenderTargetView rt) s = Some (ColourCleared rt)"
| "event_of (Render m) s = Some (Drawn m s)"
| "event_of (Present n) s = Some (Presented n)"
| "event_of c s = None"

fun run :: "Command list \<Rightarrow> Context \<Rightarrow> Event list" where
  "run [] s = []"
| "run (c # cs) s =
     (case event_of c s of
        None \<Rightarrow> run cs (step c s)
      | Some e \<Rightarrow> e # run cs (step c s))"

definition NUM_LIGHTS :: nat where "NUM_LIGHTS = 2"
definition gShadowMapSize :: nat where "gShadowMapSize = 1024"

definition RenderDepthBufferFromLight :: "nat \<Rightarrow> Command list" where
  "RenderDepthBufferFromLight lightIndex =
     [UpdateConstantBuffer (FromLight lightIndex),
      VSSetConstantBuffers 0,
      PSSetConstantBuffers 0,
      VSSetShader BasicTransformVertexShader,
      PSSetShader DepthOnlyPixelShader,
      OMSetBlendState NoBlendingState,
      OMSetDepthStencilState UseDepthBufferState,
      RSSetState CullFrontState,
      Render Floor,
      Render Teapot,
      Render Sphere,
      Render Cube,
      Render Troll]"

definition RenderSceneFromCamera :: "Command list" where
  "RenderSceneFromCamera =
     [UpdateConstantBuffer FromCamera,
      VSSetConstantBuffers 0,
      PSSetConstantBuffers 0,
      VSSetShader PixelLightingVertexShader,
      PSSetShader PixelLightingPixelShader,
      OMSetBlendState NoBlendingState,
      OMSetDepthStencilState UseDepthBufferState,
      RSSetState CullBackState,
      PSSetShaderResources 0 (Some FloorDiffuseSpecularMapSRV),
      PSSetSamplers 0 Anisotropic4xSampler,
      Render Floor,
      PSSetShaderResources 0 (Some TeapotDiffuseSpecularMapSRV),
      Render Teapot,
      PSSetShader MixingTexturesPixelShader,
      PSSetShaderResources 0 (Some CubeDiffuseSpecularMapSRV),
      PSSetShaderResources 3 (Some FloorDiffuseSpecularMapSRV),
      Render Cube,
      PSSetShader ScrollingPixelShader,
      VSSetShader WigglingVertexShader,
      PSSetShaderResources 0 (Some SphereDiffuseSpecularMapSRV),
      Render Sphere,
      VSSetShader CellShadingOutlineVertexShader,
      PSSetShader CellShadingOutlinePixelShader,
      OMSetBlendState NoBlendingState,
      OMSetDepthStencilState UseDepthBufferState,
      RSSetState CullFrontState,
      Render Troll,
      VSSetShader CellShadingVertexShader,
      PSSetShader CellShadingPixelShader,
      RSSetState CullBackState,
      PSSetShaderResources 0 (Some TrollDiffuseMapSRV),
      PSSetSamplers 0 Anisotropic4xSampler,
      PSSetShaderResources 1 (Some CellMapSRV),
      PSSetSamplers 1 PointSampler,
      Render Troll,
      VSSetShader BasicTransformVertexShader,
      PSSetShader LightModelPixelShader,
      PSSetShaderResources 0 (Some LightDiffuseMapSRV),
      PSSetSamplers 0 Anisotropic4xSampler,
      OMSetBlendState AdditiveBlendingState,
      OMSetDepthStencilState DepthReadOnlyState,
      RSSetState CullNoneState]
     @ concat (map (\<lambda>i. [SetObjectColour i, Render (LightModel i)]) [0..<NUM_LIGHTS])"

record Globals =
  gViewportWidth :: nat
  gViewportHeight :: nat
  lockFPS :: bool

definition RenderScene :: "Globals \<Rightarrow> Command list" where
  "RenderScene g =
     [RSSetViewports gShadowMapSize gShadowMapSize,
      OMSetRenderTargets None (Some ShadowMap1DepthStencil),
      ClearDepthStencilView ShadowMap1DepthStencil 1]
     @ RenderDepthBufferFromLight 0
     @ [OMSetRenderTargets None (Some ShadowMap2DepthStencil),
        ClearDepthStencilView ShadowMap2DepthStencil 1]
     @ RenderDepthBufferFromLight 1
     @ [OMSetRenderTargets (Some BackBufferRenderTarget) (Some DepthStencil),
        ClearRenderTargetView BackBufferRenderTarget,
        ClearDepthStencilView DepthStencil 1,
        RSSetViewports (gViewportWidth g) (gViewportHeight g),
        PSSetShaderResources 1 (Some ShadowMap1SRV),
        PSSetShaderResources 2 (Some ShadowMap2SRV),
        PSSetSamplers 1 PointSampler]
     @ RenderSceneFromCamera
     @ [PSSetShaderResources 1 None,
        PSSetShaderResources 2 None,
        Present (if lockFPS g then 1 else 0)]"

text \<open>Frame after frame on the one context, each with the globals it saw.\<close>

definition frames :: "Globals list \<Rightarrow> Command list" where
  "frames gs = concat (map RenderScene gs)"

text \<open>
  The view of an event that the pass structure is read from: for a draw, the two targets,
  the model, and the shader resources in slots 1 and 2.
\<close>

datatype Observation =
    ODepthCleared DepthStencilView real
  | OColourCleared RenderTargetView
  | ODraw "RenderTargetView option" "DepthStencilView option" Model
      "ShaderResourceView option" "ShaderResourceView option"
  | OPresent nat

fun observe :: "Event \<Rightarrow> Observation" where
  "observe (DepthCleared ds d) = ODepthCleared ds d"
| "observe (ColourCleared rt) = OColourCleared rt"
| "observe (Drawn m s) =
     ODraw (renderTarget s) (depthStencil s) m (shaderResources s 1) (shaderResources s 2)"
| "observe (Presented n) = OPresent n"

section \<open>Initialisation (Scene.cpp, Shader.cpp)\<close>

text \<open>
  What the calls into the loaders and the device answer is the environment: which mesh
  constructors throw \<open>std::runtime_error\<close> and with what message, which compiled-shader
  files open and read, which creation calls fail. The two \<open>sizeof\<close> values are
  parameters as well. A pointer result is an option, \<open>None\<close> for \<open>nullptr\<close>.
  \<open>InitGeometry\<close> returns its result together with \<open>gLastError\<close>.
\<close>

record Env =
  Mesh_throws :: "string \<Rightarrow> string option"
  cso_is_open :: "string \<Rightarrow> bool"
  cso_read_fail :: "string \<Rightarrow> bool"
  CreateVertexShader_FAILED :: "string \<Rightarrow> bool"
  CreatePixelShader_FAILED :: "string \<Rightarrow> bool"
  sizeof_PerFrameConstants :: int
  sizeof_PerModelConstants :: int
  CreateBuffer_FAILED :: "int \<Rightarrow> bool"
  LoadTexture :: "string \<Rightarrow> string \<Rightarrow> bool"
  CreateTexture2D_FAILED :: "string \<Rightarrow> bool"
  CreateDepthStencilView_FAILED :: "string \<Rightarrow> bool"
  CreateShaderResourceView_FAILED :: "string \<Rightarrow> bool"
  CreateStates :: bool

definition LoadVertexShader :: "Env \<Rightarrow> string \<Rightarrow> string option" where
  "LoadVertexShader env shaderName =
     (let shaderFile = shaderName @ ''.cso''
      in if \<not> cso_is_open env shaderFile then None
         else if cso_read_fail env shaderFile then None
         else if CreateVertexShader_FAILED env shaderFile then None
         else Some shaderFile)"

definition LoadPixelShader :: "Env \<Rightarrow> string \<Rightarrow> string option" where
  "LoadPixelShader env shaderName =
     (let shaderFile = shaderName @ ''.cso''
      in if \<not> cso_is_open env shaderFile then None
         else if cso_read_fail env shaderFile then None
         else if CreatePixelShader_FAILED env shaderFile then None
         else Some shaderFile)"

definition CreateConstantBuffer :: "Env \<Rightarrow> int \<Rightarrow> int option" where
  "CreateConstantBuffer env sz =
     (let ByteWidth = 16 * ((sz + 15) div 16)
      in if CreateBuffer_FAILED env ByteWidth then None else Some ByteWidth)"

definition LoadShaders :: "Env \<Rightarrow> string \<Rightarrow> bool \<times> string" where
  "LoadShaders env gLastError =
     (let gPixelLightingVertexShader = LoadVertexShader env ''ShadowMapping_vs'';
          gPixelLightingPixelShader = LoadPixelShader env ''ShadowMapping_ps'';
          gBasicTransformVertexShader = LoadVertexShader env ''BasicTransform_vs'';
          gLightModelPixelShader = LoadPixelShader env ''LightModel_ps'';
          gDepthOnlyPixelShader = LoadPixelShader env ''DepthOnly_ps'';
          gWigglingVertexShader = LoadVertexShader env ''Wiggling_vs'';
          gScrollingPixelShader = LoadPixelShader env ''Scrolling_ps'';
          gMixingTexturesPixelShader = LoadPixelShader env ''MixingTextures_ps'';
          gCellShadingVertexShader = LoadVertexShader env ''CellShading_vs'';
          gCellShadingPixelShader = LoadPixelShader env ''CellShading_ps'';
          gCellShadingOutlineVertexShader = LoadVertexShader env ''CellShadingOutline_vs'';
          gCellShadingOutlinePixelShader = LoadPixelShader env ''CellShadingOutline_ps''
      in if gPixelLightingVertexShader = None \<or> gPixelLightingPixelShader = None \<or>
            gWigglingVertexShader = None \<or> gBasicTransformVertexShader = None \<or>
            gLightModelPixelShader = None \<or> gDepthOnlyPixelShader = None \<or>
            gScrollingPixelShader = None \<or> gMixingTexturesPixelShader = None \<or>
            gCellShadingVertexShader = None \<or> gCellShadingPixelShader = None \<or>
            gCellShadingOutlineVertexShader = None \<or> gCellShadingOutlinePixelShader = None
         then (False, ''Error loading shaders'')
         else (True, gLastError))"

fun construct_meshes :: "Env \<Rightarrow> string list \<Rightarrow> string option" where
  "construct_meshes env [] = None"
| "construct_meshes env (f # fs) =
     (case Mesh_throws env f of
        Some what \<Rightarrow> Some what
      | None \<Rightarrow> construct_meshes env fs)"

definition mesh_files :: "string list" where
  "mesh_files = [''Models/Teapot.x'', ''Models/Sphere.x'', ''Models/Cube.x'',
                 ''Models/Floor.x'', ''Models/Light.x'', ''Models/troll.x'']"

definition InitGeometry :: "Env \<Rightarrow> string \<Rightarrow> bool \<times> string" where
  "InitGeometry env gLastError =
     (case construct_meshes env mesh_files of
        Some what \<Rightarrow> (False, what)
      | None \<Rightarrow>
         (let (loaded, gLastError1) = LoadShaders env gLastError
          in if \<not> loaded then (False, ''Error loading shaders'')
          else
            (let gPerFrameConstantBuffer = CreateConstantBuffer env (sizeof_PerFrameConstants env);
                 gPerModelConstantBuffer = CreateConstantBuffer env (sizeof_PerModelConstants env)
             in if gPerFrameConstantBuffer = None \<or> gPerModelConstantBuffer = None
                then (False, ''Error creating constant buffers'')
                else if \<not> LoadTexture env ''Textures/PatternDiffuseSpecular.dds'' ''gTeapotDiffuseSpecularMap'' \<or>
                        \<not> LoadTexture env ''Textures/PatternDiffuseSpecular.dds'' ''gSphereDiffuseSpecularMap'' \<or>
                        \<not> LoadTexture env ''Textures/StoneDiffuseSpecular.dds'' ''gCubeDiffuseSpecularMap'' \<or>
                        \<not> LoadTexture env ''Textures/WoodDiffuseSpecular.dds'' ''gFloorDiffuseSpecularMap'' \<or>
                        \<not> LoadTexture env ''Textures/Flare.jpg'' ''gLightDiffuseMap'' \<or>
                        \<not> LoadTexture env ''Textures/Green.png'' ''gTrollDiffuseMap'' \<or>
                        \<not> LoadTexture env ''Textures/CellGradient.png'' ''gCellMap''
                then (False, ''Error loading textures'')
                else if CreateTexture2D_FAILED env ''gShadowMap1Texture''
                then (False, ''Error creating shadow map texture'')
                else if CreateDepthStencilView_FAILED env ''gShadowMap1DepthStencil''
                then (False, ''Error creating shadow map depth stencil view'')
                else if CreateShaderResourceView_FAILED env ''gShadowMap1SRV''
                then (False, ''Error creating shadow map shader resource view'')
                else if CreateTexture2D_FAILED env ''gShadowMap2Texture''
                then (False, ''Error creating shadow map texture'')
                else if CreateDepthStencilView_FAILED env ''gShadowMap2DepthStencil''
                then (False, ''Error creating shadow map depth stencil view'')
                else if CreateShaderResourceView_FAILED env ''gShadowMap2SRV''
                then (False, ''Error creating shadow map shader resource view'')
                else if \<not> CreateStates env
                then (False, ''Error creating states'')
                else (True, gLastError1))))"

text \<open>
  The steps of the initialisation, said independently of the order the code takes them in.
\<close>

definition shader_loads :: "Env \<Rightarrow> bool \<Rightarrow> string \<Rightarrow> bool" where
  "shader_loads env is_vertex name =
     (cso_is_open env (name @ ''.cso'') \<and> \<not> cso_read_fail env (name @ ''.cso'') \<and>
      \<not> (if is_vertex then CreateVertexShader_FAILED env (name @ ''.cso'')
         else CreatePixelShader_FAILED env (name @ ''.cso'')))"

definition vertex_shader_names :: "string list" where
  "vertex_shader_names = [''ShadowMapping_vs'', ''BasicTransform_vs'', ''Wiggling_vs'',
     ''CellShading_vs'', ''CellShadingOutline_vs'']"

definition pixel_shader_names :: "string list" where
  "pixel_shader_names = [''ShadowMapping_ps'', ''LightModel_ps'', ''DepthOnly_ps'', ''Scrolling_ps'',
     ''MixingTextures_ps'', ''CellShading_ps'', ''CellShadingOutline_ps'']"

definition texture_files :: "(string \<times> string) list" where
  "texture_files =
     [(''Textures/PatternDiffuseSpecular.dds'', ''gTeapotDiffuseSpecularMap''),
      (''Textures/PatternDiffuseSpecular.dds'', ''gSphereDiffuseSpecularMap''),
      (''Textures/StoneDiffuseSpecular.dds'', ''gCubeDiffuseSpecularMap''),
      (''Textures/WoodDiffuseSpecular.dds'', ''gFloorDiffuseSpecularMap''),
      (''Textures/Flare.jpg'', ''gLightDiffuseMap''),
      (''Textures/Green.png'', ''gTrollDiffuseMap''),
      (''Textures/CellGradient.png'', ''gCellMap'')]"

definition every_step_succeeds :: "Env \<Rightarrow> bool" where
  "every_step_succeeds env =
     ((\<forall>f\<in>set mesh_files. Mesh_throws env f = None) \<and>
      (\<forall>n\<in>set vertex_shader_names. shader_loads env True n) \<and>
      (\<forall>n\<in>set pixel_shader_names. shader_loads env False n) \<and>
      \<not> CreateBuffer_FAILED env (16 * ((sizeof_PerFrameConstants env + 15) div 16)) \<and>
      \<not> CreateBuffer_FAILED env (16 * ((sizeof_PerModelConstants env + 15) div 16)) \<and>
      (\<forall>t\<in>set texture_files. LoadTexture env (fst t) (snd t)) \<and>
      \<not> CreateTexture2D_FAILED env ''gShadowMap1Texture'' \<and>
      \<not> CreateDepthStencilView_FAILED env ''gShadowMap1DepthStencil'' \<and>
      \<not> CreateShaderResourceView_FAILED env ''gShadowMap1SRV'' \<and>
      \<not> CreateTexture2D_FAILED env ''gShadowMap2Texture'' \<and>
      \<not> CreateDepthStencilView_FAILED env ''gShadowMap2DepthStencil'' \<and>
      \<not> CreateShaderResourceView_FAILED env ''gShadowMap2SRV'' \<and>
      CreateStates env)"

definition error_messages :: "string list" where
  "error_messages =
     [''Error loading shaders'', ''Error creating constant buffers'', ''Error loading textures'',
      ''Error creating shadow map texture'', ''Error creating shadow map depth stencil view'',
      ''Error creating shadow map shader resource view'', ''Error creating states'']"

text \<open>The steps after the shaders.\<close>

definition rest_ok :: "Env \<Rightarrow> bool" where
  "rest_ok env =
     (\<not> CreateBuffer_FAILED env (16 * ((sizeof_PerFrameConstants env + 15) div 16)) \<and>
      \<not> CreateBuffer_FAILED env (16 * ((sizeof_PerModelConstants env + 15) div 16)) \<and>
      (\<forall>t\<in>set texture_files. LoadTexture env (fst t) (snd t)) \<and>
      \<not> CreateTexture2D_FAILED env ''gShadowMap1Texture'' \<and>
      \<not> CreateDepthStencilView_FAILED env ''gShadowMap1DepthStencil'' \<and>
      \<not> CreateShaderResourceView_FAILED env ''gShadowMap1SRV'' \<and>
      \<not> CreateTexture2D_FAILED env ''gShadowMap2Texture'' \<and>
      \<not> CreateDepthStencilView_FAILED env ''gShadowMap2DepthStencil'' \<and>
      \<not> CreateShaderResourceView_FAILED env ''gShadowMap2SRV'' \<and>
      CreateStates env)"

section \<open>Predicates on contexts and event streams\<close>

text \<open>
  A shadow map has two views: its depth-stencil view (written through) and its shader
  resource view (read through). The hazard is one texture bound through both at once.
\<close>

definition srv_bound :: "Context \<Rightarrow> ShaderResourceView \<Rightarrow> bool" where
  "srv_bound s v = (\<exists>slot. shaderResources s slot = Some v)"

definition no_shadow_srv :: "Context \<Rightarrow> bool" where
  "no_shadow_srv s = (\<not> srv_bound s ShadowMap1SRV \<and> \<not> srv_bound s ShadowMap2SRV)"

definition hazard :: "Context \<Rightarrow> bool" where
  "hazard s =
     ((depthStencil s = Some ShadowMap1DepthStencil \<and> srv_bound s ShadowMap1SRV) \<or>
      (depthStencil s = Some ShadowMap2DepthStencil \<and> srv_bound s ShadowMap2SRV))"

definition read_phase_ok :: "Context \<Rightarrow> bool" where
  "read_phase_ok s =
     ((srv_bound s ShadowMap1SRV \<or> srv_bound s ShadowMap2SRV) \<longrightarrow> depthStencil s = Some DepthStencil)"

fun writes_shadow_map :: "DepthStencilView \<Rightarrow> Event \<Rightarrow> bool" where
  "writes_shadow_map ds (DepthCleared ds' d) = (ds' = ds)"
| "writes_shadow_map ds (Drawn m s) = (depthStencil s = Some ds)"
| "writes_shadow_map ds (ColourCleared rt) = False"
| "writes_shadow_map ds (Presented n) = False"

fun samples_shadow_map :: "ShaderResourceView \<Rightarrow> Event \<Rightarrow> bool" where
  "samples_shadow_map v (Drawn m s) = srv_bound s v"
| "samples_shadow_map v (DepthCleared ds d) = False"
| "samples_shadow_map v (ColourCleared rt) = False"
| "samples_shadow_map v (Presented n) = False"

fun written_before_sampled :: "DepthStencilView \<Rightarrow> ShaderResourceView \<Rightarrow> Event list \<Rightarrow> bool" where
  "written_before_sampled ds v [] = True"
| "written_before_sampled ds v (e # es) =
     ((samples_shadow_map v e \<longrightarrow> \<not> list_ex (writes_shadow_map ds) (e # es)) \<and>
      written_before_sampled ds v es)"

definition default_states :: "Context \<Rightarrow> bool" where
  "default_states s =
     (rasterizerState s = Some CullBackState \<and> blendState s = Some NoBlendingState \<and>
      depthStencilState s = Some UseDepthBufferState)"

fun camera_draws :: "Event list \<Rightarrow> Context list" where
  "camera_draws [] = []"
| "camera_draws (Drawn m s # es) =
     (if depthStencil s = Some DepthStencil then s # camera_draws es else camera_draws es)"
| "camera_draws (e # es) = camera_draws es"

fun restored_between :: "Context list \<Rightarrow> bool" where
  "restored_between (a # b # rest) =
     ((\<not> default_states a \<and> pixelShader a \<noteq> pixelShader b \<longrightarrow> default_states b) \<and>
      restored_between (b # rest))"
| "restored_between [a] = True"
| "restored_between [] = True"

text \<open>
  The contexts of all draws of an event stream, shadow passes and camera pass alike, and
  the weaker restoration between the draws of two render groups: no blending and depth
  writes, whatever the culling.
\<close>

fun all_draws :: "Event list \<Rightarrow> Context list" where
  "all_draws [] = []"
| "all_draws (Drawn m s # es) = s # all_draws es"
| "all_draws (e # es) = all_draws es"

definition blend_depth_default :: "Context \<Rightarrow> bool" where
  "blend_depth_default s =
     (blendState s = Some NoBlendingState \<and> depthStencilState s = Some UseDepthBufferState)"

fun blend_depth_restored_between :: "Context list \<Rightarrow> bool" where
  "blend_depth_restored_between (a # b # rest) =
     ((\<not> default_states a \<and> pixelShader a \<noteq> pixelShader b \<longrightarrow> blend_depth_default b) \<and>
      blend_depth_restored_between (b # rest))"
| "blend_depth_restored_between [a] = True"
| "blend_depth_restored_between [] = True"

fun draw_state :: "Event \<Rightarrow>
    (Model \<times> PixelShader option \<times> RasterizerState option \<times> BlendState option \<times> DepthStencilState option) option" where
  "draw_state (Drawn m s) = Some (m, pixelShader s, rasterizerState s, blendState s, depthStencilState s)"
| "draw_state (DepthCleared ds d) = None"
| "draw_state (ColourCleared rt) = None"
| "draw_state (Presented n) = None"

text \<open>A context with nothing bound, and the inputs the examples below run on.\<close>

definition initial_context :: Context where
  "initial_context = \<lparr> viewport = None, renderTarget = None, depthStencil = None,
     perFrameConstants = None, vertexShader = None, pixelShader = None, blendState = None,
     depthStencilState = None, rasterizerState = None,
     shaderResources = (\<lambda>_. None), samplers = (\<lambda>_. None) \<rparr>"

definition demo_globals :: Globals where
  "demo_globals = \<lparr> gViewportWidth = 1280, gViewportHeight = 960, lockFPS = True \<rparr>"

definition identity4x4 :: float4x4 where
  "identity4x4 = ((1, 0, 0, 0), (0, 1, 0, 0), (0, 0, 1, 0), (0, 0, 0, 1))"

text \<open>
  Both lights sit at (0, 0, 1), one unit above the pixel at the origin whose normal points
  at them. Light 1 faces away from the pixel, light 2 faces it.
\<close>

definition demo_constants :: PerFrameConstants where
  "demo_constants = \<lparr>
     gViewMatrix = identity4x4, gProjectionMatrix = identity4x4,
     gViewProjectionMatrix = identity4x4,
     gLight1Position = (0, 0, 1), gLight1Colour = (1, 1, 1), gLight1Facing = (0, 0, 1),
     gLight1CosHalfAngle = 1 / 2,
     gLight1ViewMatrix = identity4x4, gLight1ProjectionMatrix = identity4x4,
     gLight2Position = (0, 0, 1), gLight2Colour = (1, 1, 1), gLight2Facing = (0, 0, - 1),
     gLight2CosHalfAngle = 1 / 2,
     gLight2ViewMatrix = identity4x4, gLight2ProjectionMatrix = identity4x4,
     gAmbientColour = (0.2, 0.2, 0.3), gSpecularPower = 256, gCameraPosition = (0, 0, 1),
     wiggle = 0, shift = 1 / 4, fading = 0 \<rparr>"

definition demo_constants_lit :: PerFrameConstants where
  "demo_constants_lit = demo_constants\<lparr>gLight1Facing := (0, 0, - 1)\<rparr>"

definition demo_constants_dark :: PerFrameConstants where
  "demo_constants_dark = demo_constants\<lparr>gLight2Facing := (0, 0, 1)\<rparr>"

definition demo_pixel :: LightingPixelShaderInput where
  "demo_pixel = \<lparr> worldPosition = (0, 0, 0), worldNormal = (0, 0, 1), uv = (0, 0) \<rparr>"

definition demo_pixel_low :: LightingPixelShaderInput where
  "demo_pixel_low = \<lparr> worldPosition = (0, - 1, 0), worldNormal = (0, 0, 1), uv = (0, 0) \<rparr>"

definition demo_simple_pixel :: SimplePixelShaderInput where
  "demo_simple_pixel = \<lparr> suv = (1 / 2, 1 / 2) \<rparr>"

definition white :: Texture2D where
  "white = (\<lambda>_. (1, 1, 1, 1))"

definition black :: Texture2D where
  "black = (\<lambda>_. (0, 0, 0, 0))"

definition env_ok :: Env where
  "env_ok = \<lparr>
     Mesh_throws = (\<lambda>_. None), cso_is_open = (\<lambda>_. True), cso_read_fail = (\<lambda>_. False),
     CreateVertexShader_FAILED = (\<lambda>_. False), CreatePixelShader_FAILED = (\<lambda>_. False),
     sizeof_PerFrameConstants = 588, sizeof_PerModelConstants = 80,
     CreateBuffer_FAILED = (\<lambda>_. False), LoadTexture = (\<lambda>_ _. True),
     CreateTexture2D_FAILED = (\<lambda>_. False), CreateDepthStencilView_FAILED = (\<lambda>_. False),
     CreateShaderResourceView_FAILED = (\<lambda>_. False), CreateStates = True \<rparr>"

definition env_no_flare :: Env where
  "env_no_flare = env_ok\<lparr>LoadTexture := (\<lambda>file dest. file \<noteq> ''Textures/Flare.jpg'')\<rparr>"

definition env_no_troll :: Env where
  "env_no_troll =
     env_ok\<lparr>Mesh_throws :=
       (\<lambda>file. if file = ''Models/troll.x'' then Some ''Error loading troll.x'' else None)\<rparr>"

section \<open>The lighting formulas in the words of the specification\<close>

text \<open>
  The cell-shaded diffuse term: the light colour times the red channel of the cell map
  looked up at \<open>max(dot(N, Ldir), 0)\<close>, divided by the distance. The final colour:
  ambient plus the diffuse terms, times the texture's rgb, plus the specular terms times
  the texture's alpha, with alpha 1. The sums add left to right from the ambient colour.
\<close>

definition spec_cell_diffuse :: "float3 \<Rightarrow> Texture2D \<Rightarrow> float3 \<Rightarrow> float3 \<Rightarrow> real \<Rightarrow> float3" where
  "spec_cell_diffuse lightColour cellMap N Ldir distance =
     divs3 (scale3 lightColour (red (cellMap (max (dot3 N Ldir) 0, max (dot3 N Ldir) 0)))) distance"

definition spec_final_colour :: "float3 \<Rightarrow> float3 list \<Rightarrow> float3 \<Rightarrow> float3 \<Rightarrow> float4 \<Rightarrow> float4" where
  "spec_final_colour ambient diffuses specular1 specular2 texture =
     float4_of (add3 (mul3 (foldl add3 ambient diffuses) (rgb texture))
                     (scale3 (add3 specular1 specular2) (alpha texture))) 1"

section \<open>Properties of the shaders\<close>

lemmas demo_defs =
  demo_constants_def demo_constants_lit_def demo_constants_dark_def demo_pixel_def
  demo_pixel_low_def identity4x4_def white_def black_def
  light1Direction_of_def light2Direction_of_def light1Projection_of_def light2Projection_of_def
  normalize3_def length3_def splat3_def pow_def zero3_def

text \<open>
  C1, as amended. The shadow-map coordinate of a pixel is computed from its position
  (x, y, z, w) in the light's clip space as (0.5 x / w + 0.5, 1 - (0.5 y / w + 0.5)): the
  perspective divide, the change of range, then the V flip. Consequently a point with
  projected y = +1 maps to v = 0 and a point with projected y = -1 maps to v = 1. Each
  light block reads its shadow map at that coordinate only.
\<close>

theorem shadowMapUV_flip:
  "shadowMapUV_of (px, py, pz, pw) = (0.5 * px / pw + 0.5, 1 - (0.5 * py / pw + 0.5)) \<and>
   (py / pw = 1 \<longrightarrow> snd (shadowMapUV_of (px, py, pz, pw)) = 0) \<and>
   (py / pw = - 1 \<longrightarrow> snd (shadowMapUV_of (px, py, pz, pw)) = 1) \<and>
   (sm (shadowMapUV_of (light1Projection_of c inp)) = sm' (shadowMapUV_of (light1Projection_of c inp))
      \<longrightarrow> ShadowMapping_light1 c sm inp cam = ShadowMapping_light1 c sm' inp cam) \<and>
   (sm (shadowMapUV_of (light2Projection_of c inp)) = sm' (shadowMapUV_of (light2Projection_of c inp))
      \<longrightarrow> ShadowMapping_light2 c sm inp cam = ShadowMapping_light2 c sm' inp cam)"
  by (simp add: Let_def ShadowMapping_light1_def ShadowMapping_light2_def)

theorem shadowMapUV_flip_witness:
  "(1::real) / 1 = 1 \<and> snd (shadowMapUV_of (0, 1, 0, 1)) = 0 \<and>
   (- 1::real) / 1 = - 1 \<and> snd (shadowMapUV_of (0, - 1, 0, 1)) = 1 \<and>
   white (shadowMapUV_of (light1Projection_of demo_constants demo_pixel)) =
     (\<lambda>p. if p = (1 / 2, 1 / 2) then (1, 1, 1, 1) else (0, 0, 0, 0))
       (shadowMapUV_of (light1Projection_of demo_constants demo_pixel)) \<and>
   ShadowMapping_light1 demo_constants white demo_pixel (0, 0, 1) =
     ShadowMapping_light1 demo_constants
       (\<lambda>p. if p = (1 / 2, 1 / 2) then (1, 1, 1, 1) else (0, 0, 0, 0)) demo_pixel (0, 0, 1) \<and>
   white (shadowMapUV_of (light2Projection_of demo_constants demo_pixel)) =
     (\<lambda>p. if p = (1 / 2, 1 / 2) then (1, 1, 1, 1) else (0, 0, 0, 0))
       (shadowMapUV_of (light2Projection_of demo_constants demo_pixel)) \<and>
   ShadowMapping_light2 demo_constants white demo_pixel (0, 0, 1) =
     ShadowMapping_light2 demo_constants
       (\<lambda>p. if p = (1 / 2, 1 / 2) then (1, 1, 1, 1) else (0, 0, 0, 0)) demo_pixel (0, 0, 1)"
proof -
  have h1: "white (shadowMapUV_of (light1Projection_of demo_constants demo_pixel)) =
     (\<lambda>p. if p = (1 / 2, 1 / 2) then (1, 1, 1, 1) else (0, 0, 0, 0))
       (shadowMapUV_of (light1Projection_of demo_constants demo_pixel))"
    by (simp add: demo_defs)
  have h2: "white (shadowMapUV_of (light2Projection_of demo_constants demo_pixel)) =
     (\<lambda>p. if p = (1 / 2, 1 / 2) then (1, 1, 1, 1) else (0, 0, 0, 0))
       (shadowMapUV_of (light2Projection_of demo_constants demo_pixel))"
    by (simp add: demo_defs)
  show ?thesis
    using h1 h2
      shadowMapUV_flip [where px = 0 and py = 1 and pz = 0 and pw = 1 and c = demo_constants
        and inp = demo_pixel and sm = white
        and sm' = "\<lambda>p. if p = (1 / 2, 1 / 2) then (1, 1, 1, 1) else (0, 0, 0, 0)"
        and cam = "(0, 0, 1)"]
      shadowMapUV_flip [where px = 0 and py = "- 1" and pz = 0 and pw = 1 and c = demo_constants
        and inp = demo_pixel and sm = white and sm' = white and cam = "(0, 0, 1)"]
    by simp
qed

text \<open>
  C1 as stated fails: the pixel at (0, -1, 0), under identity light matrices, has projected
  y = -1 and its shadow-map coordinate is (1/2, 1), so v is 1 and not 0.
\<close>

theorem shadowMapUV_bottom_counterexample:
  "light1Projection_of demo_constants demo_pixel_low = (0, - 1, 0, 1) \<and>
   (- 1::real) / 1 = - 1 \<and>
   shadowMapUV_of (light1Projection_of demo_constants demo_pixel_low) = (1 / 2, 1) \<and>
   snd (shadowMapUV_of (light1Projection_of demo_constants demo_pixel_low)) \<noteq> 0"
  by (simp add: demo_defs)

text \<open>
  C2, as amended. In the per-pixel lighting shader (ShadowMapping_ps), for each of the two
  lights, a pixel outside the light's cone, that is with
  dot(Ldir, -F) \<le> cos(theta), gets diffuse and specular terms from that light that are
  exactly zero. (The cell-shading shader has no cone test.)
\<close>

theorem cone_test_outside_zero:
  "(dot3 (light1Direction_of c inp) (neg3 (gLight1Facing c)) \<le> gLight1CosHalfAngle c
      \<longrightarrow> ShadowMapping_light1 c sm1 inp cam = (zero3, zero3)) \<and>
   (dot3 (light2Direction_of c inp) (neg3 (gLight2Facing c)) \<le> gLight2CosHalfAngle c
      \<longrightarrow> ShadowMapping_light2 c sm2 inp cam = (zero3, zero3))"
  by (simp add: ShadowMapping_light1_def ShadowMapping_light2_def Let_def)

theorem cone_test_outside_zero_witness:
  "dot3 (light1Direction_of demo_constants_dark demo_pixel) (neg3 (gLight1Facing demo_constants_dark))
     \<le> gLight1CosHalfAngle demo_constants_dark \<and>
   ShadowMapping_light1 demo_constants_dark white demo_pixel (0, 0, 1) = (zero3, zero3) \<and>
   dot3 (light2Direction_of demo_constants_dark demo_pixel) (neg3 (gLight2Facing demo_constants_dark))
     \<le> gLight2CosHalfAngle demo_constants_dark \<and>
   ShadowMapping_light2 demo_constants_dark white demo_pixel (0, 0, 1) = (zero3, zero3)"
proof -
  have h1: "dot3 (light1Direction_of demo_constants_dark demo_pixel)
      (neg3 (gLight1Facing demo_constants_dark)) \<le> gLight1CosHalfAngle demo_constants_dark"
    by (simp add: demo_defs)
  have h2: "dot3 (light2Direction_of demo_constants_dark demo_pixel)
      (neg3 (gLight2Facing demo_constants_dark)) \<le> gLight2CosHalfAngle demo_constants_dark"
    by (simp add: demo_defs)
  show ?thesis
    using h1 h2
      cone_test_outside_zero [of demo_constants_dark demo_pixel white "(0, 0, 1)" white]
    by simp
qed

text \<open>
  C2 as stated fails in the cell-shading shader: light 1 faces away from the pixel, which is
  therefore outside its cone, and the pixel still gets the diffuse term (1, 1, 1) from it.
\<close>

theorem cell_shading_cone_counterexample:
  "dot3 (light1Direction_of demo_constants demo_pixel) (neg3 (gLight1Facing demo_constants))
     \<le> gLight1CosHalfAngle demo_constants \<and>
   fst (CellShading_light1 demo_constants white demo_pixel (0, 0, 1)) = (1, 1, 1) \<and>
   fst (CellShading_light1 demo_constants white demo_pixel (0, 0, 1)) \<noteq> zero3"
  by (simp add: demo_defs CellShading_light1_def Let_def)

text \<open>
  C3. The shadow test is strict. The depth of the pixel seen from the light is z / w of its
  clip-space position. If a light's block yields a diffuse or specular term that is not
  zero, then that depth is strictly less than the depth read from the light's shadow map;
  and when the two are equal, both terms of that light are zero.
\<close>

theorem shadow_test_strict:
  "depthFromLight_of (px, py, pz, pw) = pz / pw \<and>
   (depthFromLight_of (light1Projection_of c inp) =
      red (sm1 (shadowMapUV_of (light1Projection_of c inp)))
      \<longrightarrow> ShadowMapping_light1 c sm1 inp cam = (zero3, zero3)) \<and>
   (ShadowMapping_light1 c sm1 inp cam \<noteq> (zero3, zero3)
      \<longrightarrow> depthFromLight_of (light1Projection_of c inp) <
            red (sm1 (shadowMapUV_of (light1Projection_of c inp)))) \<and>
   (depthFromLight_of (light2Projection_of c inp) =
      red (sm2 (shadowMapUV_of (light2Projection_of c inp)))
      \<longrightarrow> ShadowMapping_light2 c sm2 inp cam = (zero3, zero3)) \<and>
   (ShadowMapping_light2 c sm2 inp cam \<noteq> (zero3, zero3)
      \<longrightarrow> depthFromLight_of (light2Projection_of c inp) <
            red (sm2 (shadowMapUV_of (light2Projection_of c inp))))"
  by (simp add: ShadowMapping_light1_def ShadowMapping_light2_def Let_def)

text \<open>
  With both lights facing the pixel: under a shadow map that holds the pixel's own depth
  (0) the pixel is inside each cone and gets nothing; under one that holds the far depth
  (1) it is lit, and its depth is below the sampled one.
\<close>

theorem shadow_test_strict_witness:
  "dot3 (light1Direction_of demo_constants_lit demo_pixel) (neg3 (gLight1Facing demo_constants_lit))
     > gLight1CosHalfAngle demo_constants_lit \<and>
   dot3 (light2Direction_of demo_constants_lit demo_pixel) (neg3 (gLight2Facing demo_constants_lit))
     > gLight2CosHalfAngle demo_constants_lit \<and>
   depthFromLight_of (light1Projection_of demo_constants_lit demo_pixel) =
     red (black (shadowMapUV_of (light1Projection_of demo_constants_lit demo_pixel))) \<and>
   ShadowMapping_light1 demo_constants_lit black demo_pixel (0, 0, 1) = (zero3, zero3) \<and>
   depthFromLight_of (light2Projection_of demo_constants_lit demo_pixel) =
     red (black (shadowMapUV_of (light2Projection_of demo_constants_lit demo_pixel))) \<and>
   ShadowMapping_light2 demo_constants_lit black demo_pixel (0, 0, 1) = (zero3, zero3) \<and>
   ShadowMapping_light1 demo_constants_lit white demo_pixel (0, 0, 1) \<noteq> (zero3, zero3) \<and>
   depthFromLight_of (light1Projection_of demo_constants_lit demo_pixel) <
     red (white (shadowMapUV_of (light1Projection_of demo_constants_lit demo_pixel))) \<and>
   ShadowMapping_light2 demo_constants_lit white demo_pixel (0, 0, 1) \<noteq> (zero3, zero3) \<and>
   depthFromLight_of (light2Projection_of demo_constants_lit demo_pixel) <
     red (white (shadowMapUV_of (light2Projection_of demo_constants_lit demo_pixel)))"
proof -
  have c1: "dot3 (light1Direction_of demo_constants_lit demo_pixel)
      (neg3 (gLight1Facing demo_constants_lit)) > gLight1CosHalfAngle demo_constants_lit"
    by (simp add: demo_defs)
  have c2: "dot3 (light2Direction_of demo_constants_lit demo_pixel)
      (neg3 (gLight2Facing demo_constants_lit)) > gLight2CosHalfAngle demo_constants_lit"
    by (simp add: demo_defs)
  have e1: "depthFromLight_of (light1Projection_of demo_constants_lit demo_pixel) =
      red (black (shadowMapUV_of (light1Projection_of demo_constants_lit demo_pixel)))"
    by (simp add: demo_defs)
  have e2: "depthFromLight_of (light2Projection_of demo_constants_lit demo_pixel) =
      red (black (shadowMapUV_of (light2Projection_of demo_constants_lit demo_pixel)))"
    by (simp add: demo_defs)
  have l1: "ShadowMapping_light1 demo_constants_lit white demo_pixel (0, 0, 1) \<noteq> (zero3, zero3)"
    by (simp add: demo_defs ShadowMapping_light1_def Let_def)
  have l2: "ShadowMapping_light2 demo_constants_lit white demo_pixel (0, 0, 1) \<noteq> (zero3, zero3)"
    by (simp add: demo_defs ShadowMapping_light2_def Let_def)
  show ?thesis
    using c1 c2 e1 e2 l1 l2
      shadow_test_strict [of 0 0 0 1 demo_constants_lit demo_pixel black "(0, 0, 1)" black]
      shadow_test_strict [of 0 0 0 1 demo_constants_lit demo_pixel white "(0, 0, 1)" white]
    by blast
qed

text \<open>
  C7. In the cell-shading pixel shader each light's diffuse term is the light colour times
  the red channel of the cell map looked up at max(dot(N, Ldir), 0), divided by the
  distance to the light, where N is the renormalised normal and Ldir the unit vector to
  the light; the output is (ambient + the diffuse terms) * texture.rgb + (the specular
  terms) * texture.a, with alpha 1.
\<close>

theorem CellShading_formula:
  "fst (CellShading_light1 c CellMap inp cam) =
     spec_cell_diffuse (gLight1Colour c) CellMap (worldNormal inp)
       (divs3 (sub3 (gLight1Position c) (worldPosition inp))
              (length3 (sub3 (gLight1Position c) (worldPosition inp))))
       (length3 (sub3 (gLight1Position c) (worldPosition inp))) \<and>
   fst (CellShading_light2 c CellMap inp cam) =
     spec_cell_diffuse (gLight2Colour c) CellMap (worldNormal inp)
       (divs3 (sub3 (gLight2Position c) (worldPosition inp))
              (length3 (sub3 (gLight2Position c) (worldPosition inp))))
       (length3 (sub3 (gLight2Position c) (worldPosition inp))) \<and>
   worldNormal (renormalise input0) = normalize3 (worldNormal input0) \<and>
   worldPosition (renormalise input0) = worldPosition input0 \<and>
   CellShading_ps c DiffuseMap CellMap input0 =
     spec_final_colour (gAmbientColour c)
       [fst (CellShading_light1 c CellMap (renormalise input0)
               (cameraDirection_of c (renormalise input0))),
        fst (CellShading_light2 c CellMap (renormalise input0)
               (cameraDirection_of c (renormalise input0)))]
       (snd (CellShading_light1 c CellMap (renormalise input0)
               (cameraDirection_of c (renormalise input0))))
       (snd (CellShading_light2 c CellMap (renormalise input0)
               (cameraDirection_of c (renormalise input0))))
       (DiffuseMap (uv input0)) \<and>
   alpha (CellShading_ps c DiffuseMap CellMap input0) = 1"
proof -
  have a: "alpha (float4_of v 1) = 1" for v :: float3
    by (cases v) simp
  show ?thesis
    by (simp add: CellShading_light1_def CellShading_light2_def CellShading_ps_def
        spec_cell_diffuse_def spec_final_colour_def renormalise_def Let_def split_beta a)
qed

text \<open>
  C9. The scrolling pixel shader adds \<open>shift\<close> to the V coordinate of the incoming UV
  before the texture lookup, so the diffuse map is sampled at (u, v + shift) rather than
  at (u, v). Whatever colour t the map holds at (u, v + shift), the output is t's red,
  green and blue, each scaled, with alpha 1; so the rgb of the texel at (u, v + shift) can
  be read back from the output. When shift is not 0, changing the map at (u, v) changes
  nothing. The output is that of the shader run with shift 0 on the input moved to
  (u, v + shift), and two maps that agree at (u, v + shift) give the same output.
\<close>

theorem Scrolling_samples_shifted:
  "Scrolling_ps c (DiffuseMap((fst (suv inp), snd (suv inp) + shift c) := t)) inp =
     (red t * 0.3, green t * 0.7, blue t * 0.2, 1) \<and>
   rgb (DiffuseMap (fst (suv inp), snd (suv inp) + shift c)) =
     (red (Scrolling_ps c DiffuseMap inp) / 0.3,
      green (Scrolling_ps c DiffuseMap inp) / 0.7,
      blue (Scrolling_ps c DiffuseMap inp) / 0.2) \<and>
   (shift c \<noteq> 0 \<longrightarrow>
      Scrolling_ps c (DiffuseMap(suv inp := t)) inp = Scrolling_ps c DiffuseMap inp) \<and>
   Scrolling_ps c DiffuseMap inp =
     Scrolling_ps (c\<lparr>shift := 0\<rparr>) DiffuseMap (inp\<lparr>suv := (fst (suv inp), snd (suv inp) + shift c)\<rparr>) \<and>
   (DiffuseMap (fst (suv inp), snd (suv inp) + shift c) =
      DiffuseMap' (fst (suv inp), snd (suv inp) + shift c)
      \<longrightarrow> Scrolling_ps c DiffuseMap inp = Scrolling_ps c DiffuseMap' inp)"
proof -
  obtain r g b a where t: "t = (r, g, b, a)"
    by (cases t) auto
  obtain r' g' b' a' where d: "DiffuseMap (fst (suv inp), snd (suv inp) + shift c) = (r', g', b', a')"
    by (cases "DiffuseMap (fst (suv inp), snd (suv inp) + shift c)") auto
  have n: "shift c \<noteq> 0 \<Longrightarrow> (fst (suv inp), snd (suv inp) + shift c) \<noteq> suv inp"
    by (cases "suv inp") simp
  show ?thesis
    using n by (simp add: Scrolling_ps_def Let_def t d)
qed

text \<open>
  The pixel at (1/2, 1/2) under shift 1/4. A map that is white but for pure red at
  (1/2, 3/4) gives the tinted red; a map that is white but for black at the unshifted
  (1/2, 1/2) gives what the white map gives; two maps that agree at (1/2, 3/4) and differ
  at (1/2, 1/2) give the same output.
\<close>

theorem Scrolling_samples_shifted_witness:
  "shift demo_constants \<noteq> 0 \<and>
   (fst (suv demo_simple_pixel), snd (suv demo_simple_pixel) + shift demo_constants) = (1 / 2, 3 / 4) \<and>
   Scrolling_ps demo_constants (white((1 / 2, 3 / 4) := (1, 0, 0, 0))) demo_simple_pixel =
     (3 / 10, 0, 0, 1) \<and>
   Scrolling_ps demo_constants (white(suv demo_simple_pixel := (0, 0, 0, 0))) demo_simple_pixel =
     Scrolling_ps demo_constants white demo_simple_pixel \<and>
   white (fst (suv demo_simple_pixel), snd (suv demo_simple_pixel) + shift demo_constants) =
     (\<lambda>p. if p = (1 / 2, 1 / 2) then (0, 0, 0, 0) else (1, 1, 1, 1))
       (fst (suv demo_simple_pixel), snd (suv demo_simple_pixel) + shift demo_constants) \<and>
   white (suv demo_simple_pixel) \<noteq>
     (\<lambda>p. if p = (1 / 2, 1 / 2) then (0, 0, 0, 0) else (1, 1, 1, 1)) (suv demo_simple_pixel) \<and>
   Scrolling_ps demo_constants white demo_simple_pixel =
     Scrolling_ps demo_constants
       (\<lambda>p. if p = (1 / 2, 1 / 2) then (0, 0, 0, 0) else (1, 1, 1, 1)) demo_simple_pixel"
proof -
  have s: "shift demo_constants \<noteq> 0"
    by (simp add: demo_constants_def)
  have l: "(fst (suv demo_simple_pixel), snd (suv demo_simple_pixel) + shift demo_constants) =
      (1 / 2, 3 / 4)"
    by (simp add: demo_simple_pixel_def demo_constants_def)
  have h: "white (fst (suv demo_simple_pixel), snd (suv demo_simple_pixel) + shift demo_constants) =
     (\<lambda>p. if p = (1 / 2, 1 / 2) then (0, 0, 0, 0) else (1, 1, 1, 1))
       (fst (suv demo_simple_pixel), snd (suv demo_simple_pixel) + shift demo_constants)"
    by (simp add: demo_simple_pixel_def demo_constants_def white_def)
  have d: "white (suv demo_simple_pixel) \<noteq>
     (\<lambda>p. if p = (1 / 2, 1 / 2) then (0, 0, 0, 0) else (1, 1, 1, 1)) (suv demo_simple_pixel)"
    by (simp add: demo_simple_pixel_def white_def)
  have t1: "Scrolling_ps demo_constants (white((1 / 2, 3 / 4) := (1, 0, 0, 0))) demo_simple_pixel =
     (3 / 10, 0, 0, 1)"
    using Scrolling_samples_shifted [of demo_constants white demo_simple_pixel "(1, 0, 0, 0)"]
    unfolding l by simp
  have t2: "Scrolling_ps demo_constants (white(suv demo_simple_pixel := (0, 0, 0, 0))) demo_simple_pixel =
     Scrolling_ps demo_constants white demo_simple_pixel"
    using s Scrolling_samples_shifted [of demo_constants white demo_simple_pixel "(0, 0, 0, 0)"]
    by blast
  have t3: "Scrolling_ps demo_constants white demo_simple_pixel =
     Scrolling_ps demo_constants
       (\<lambda>p. if p = (1 / 2, 1 / 2) then (0, 0, 0, 0) else (1, 1, 1, 1)) demo_simple_pixel"
    using h Scrolling_samples_shifted [of demo_constants white demo_simple_pixel "(0, 0, 0, 0)"
        "\<lambda>p. if p = (1 / 2, 1 / 2) then (0, 0, 0, 0) else (1, 1, 1, 1)"]
    by blast
  show ?thesis
    using s l h d t1 t2 t3 by blast
qed

text \<open>
  C10. The output of the scrolling pixel shader is the sampled colour with red times 0.3,
  green times 0.7, blue times 0.2, and alpha exactly 1 whatever alpha was sampled.
\<close>

theorem Scrolling_tint:
  "Scrolling_ps c DiffuseMap inp =
     (red (DiffuseMap (fst (suv inp), snd (suv inp) + shift c)) * 0.3,
      green (DiffuseMap (fst (suv inp), snd (suv inp) + shift c)) * 0.7,
      blue (DiffuseMap (fst (suv inp), snd (suv inp) + shift c)) * 0.2,
      1) \<and>
   alpha (Scrolling_ps c DiffuseMap inp) = 1"
proof -
  obtain r g b a where t: "DiffuseMap (fst (suv inp), snd (suv inp) + shift c) = (r, g, b, a)"
    by (cases "DiffuseMap (fst (suv inp), snd (suv inp) + shift c)") auto
  show ?thesis
    by (simp add: Scrolling_ps_def Let_def t)
qed

section \<open>Properties of the frame\<close>

lemmas frame_defs =
  RenderScene_def RenderDepthBufferFromLight_def RenderSceneFromCamera_def
  NUM_LIGHTS_def upt_rec numeral_2_eq_2

lemma exec_append: "exec (a @ b) s = exec b (exec a s)"
  by (induction a arbitrary: s) simp_all

lemma states_append: "set (states (a @ b) s) = set (states a s) \<union> set (states b (exec a s))"
proof (induction a arbitrary: s)
  case Nil
  then show ?case by (cases b) auto
next
  case (Cons c a)
  then show ?case by auto
qed

lemma run_append: "run (a @ b) s = run a s @ run b (exec a s)"
  by (induction a arbitrary: s) (simp_all split: option.splits)

lemma exec_take_in_states: "exec (take k cs) s \<in> set (states cs s)"
proof (induction cs arbitrary: s k)
  case Nil
  then show ?case by simp
next
  case (Cons c cs)
  then show ?case by (cases k) auto
qed

lemma frames_Cons: "frames (g # gs) = RenderScene g @ frames gs"
  by (simp add: frames_def)

lemma frames_snoc: "frames (gs @ [g]) = frames gs @ RenderScene g"
  by (simp add: frames_def)

lemma no_shadow_srv_initial: "no_shadow_srv initial_context"
  by (simp add: no_shadow_srv_def srv_bound_def initial_context_def)

subsection \<open>Order of the passes\<close>

text \<open>
  C4. One frame, from any context: the depth of light 0's shadow map is cleared to 1.0 and
  the five shadow-casting models are drawn into it with no colour target bound; then the
  same for light 1's shadow map; then the back buffer and the main depth buffer are
  cleared and the camera pass draws into them; then Present, once and last. If no shadow
  map is bound as a shader resource when the frame starts, then in the frame no clear of
  or draw into a shadow map comes at or after a draw that has it bound for reading.
\<close>

theorem RenderScene_pass_order:
  "map observe (run (RenderScene g) s) =
    [ODepthCleared ShadowMap1DepthStencil 1,
     ODraw None (Some ShadowMap1DepthStencil) Floor (shaderResources s 1) (shaderResources s 2),
     ODraw None (Some ShadowMap1DepthStencil) Teapot (shaderResources s 1) (shaderResources s 2),
     ODraw None (Some ShadowMap1DepthStencil) Sphere (shaderResources s 1) (shaderResources s 2),
     ODraw None (Some ShadowMap1DepthStencil) Cube (shaderResources s 1) (shaderResources s 2),
     ODraw None (Some ShadowMap1DepthStencil) Troll (shaderResources s 1) (shaderResources s 2),
     ODepthCleared ShadowMap2DepthStencil 1,
     ODraw None (Some ShadowMap2DepthStencil) Floor (shaderResources s 1) (shaderResources s 2),
     ODraw None (Some ShadowMap2DepthStencil) Teapot (shaderResources s 1) (shaderResources s 2),
     ODraw None (Some ShadowMap2DepthStencil) Sphere (shaderResources s 1) (shaderResources s 2),
     ODraw None (Some ShadowMap2DepthStencil) Cube (shaderResources s 1) (shaderResources s 2),
     ODraw None (Some ShadowMap2DepthStencil) Troll (shaderResources s 1) (shaderResources s 2),
     OColourCleared BackBufferRenderTarget,
     ODepthCleared DepthStencil 1,
     ODraw (Some BackBufferRenderTarget) (Some DepthStencil) Floor
       (Some ShadowMap1SRV) (Some ShadowMap2SRV),
     ODraw (Some BackBufferRenderTarget) (Some DepthStencil) Teapot
       (Some ShadowMap1SRV) (Some ShadowMap2SRV),
     ODraw (Some BackBufferRenderTarget) (Some DepthStencil) Cube
       (Some ShadowMap1SRV) (Some ShadowMap2SRV),
     ODraw (Some BackBufferRenderTarget) (Some DepthStencil) Sphere
       (Some ShadowMap1SRV) (Some ShadowMap2SRV),
     ODraw (Some BackBufferRenderTarget) (Some DepthStencil) Troll
       (Some ShadowMap1SRV) (Some ShadowMap2SRV),
     ODraw (Some BackBufferRenderTarget) (Some DepthStencil) Troll
       (Some CellMapSRV) (Some ShadowMap2SRV),
     ODraw (Some BackBufferRenderTarget) (Some DepthStencil) (LightModel 0)
       (Some CellMapSRV) (Some ShadowMap2SRV),
     ODraw (Some BackBufferRenderTarget) (Some DepthStencil) (LightModel 1)
       (Some CellMapSRV) (Some ShadowMap2SRV),
     OPresent (if lockFPS g then 1 else 0)] \<and>
   (no_shadow_srv s \<longrightarrow>
      written_before_sampled ShadowMap1DepthStencil ShadowMap1SRV (run (RenderScene g) s) \<and>
      written_before_sampled ShadowMap2DepthStencil ShadowMap2SRV (run (RenderScene g) s))"
  by (intro conjI impI) (simp_all add: frame_defs no_shadow_srv_def srv_bound_def)

theorem RenderScene_pass_order_witness:
  "no_shadow_srv initial_context \<and>
   written_before_sampled ShadowMap1DepthStencil ShadowMap1SRV
     (run (RenderScene demo_globals) initial_context) \<and>
   written_before_sampled ShadowMap2DepthStencil ShadowMap2SRV
     (run (RenderScene demo_globals) initial_context) \<and>
   last (map observe (run (RenderScene demo_globals) initial_context)) = OPresent 1"
proof -
  have l: "lockFPS demo_globals" by (simp add: demo_globals_def)
  show ?thesis
    using no_shadow_srv_initial l RenderScene_pass_order [of demo_globals initial_context]
    by simp
qed

subsection \<open>The two roles of a shadow map\<close>

lemma frame_states:
  "no_shadow_srv s \<Longrightarrow> \<forall>t\<in>set (states (RenderScene g) s). read_phase_ok t"
  by (simp add: frame_defs read_phase_ok_def no_shadow_srv_def srv_bound_def)

lemma frame_end:
  "no_shadow_srv s \<Longrightarrow> no_shadow_srv (exec (RenderScene g) s)"
  by (simp add: frame_defs no_shadow_srv_def srv_bound_def)

lemma frame_end_slots:
  "shaderResources (exec (RenderScene g) s) 1 = None \<and>
   shaderResources (exec (RenderScene g) s) 2 = None"
  by (simp add: frame_defs)

lemma frames_states:
  "no_shadow_srv s \<Longrightarrow>
   (\<forall>t\<in>set (states (frames gs) s). read_phase_ok t) \<and> no_shadow_srv (exec (frames gs) s)"
proof (induction gs arbitrary: s)
  case Nil
  then show ?case by (simp add: frames_def read_phase_ok_def no_shadow_srv_def)
next
  case (Cons g gs)
  then show ?case
    using Cons.IH [OF frame_end [OF Cons.prems, of g]] frame_states [OF Cons.prems, of g]
    by (auto simp add: frames_Cons states_append exec_append)
qed

lemma frames_end_slots:
  "gs \<noteq> [] \<Longrightarrow>
   shaderResources (exec (frames gs) s) 1 = None \<and> shaderResources (exec (frames gs) s) 2 = None"
proof (induction gs rule: rev_induct)
  case Nil
  then show ?case by simp
next
  case (snoc g gs)
  show ?case
    using frame_end_slots [of g "exec (frames gs) s"]
    by (simp add: frames_snoc exec_append)
qed

lemma read_phase_ok_no_hazard: "read_phase_ok t \<Longrightarrow> \<not> hazard t"
  by (auto simp add: read_phase_ok_def hazard_def)

text \<open>
  C5. Over any number of frames run one after another from a context in which no shadow map
  is bound as a shader resource: in every context the command stream passes through, a
  shadow map's shader resource view is bound only while the depth target is the back
  buffer's depth buffer, so no shadow map is ever bound as depth target and as shader
  input at once; after the last frame no slot holds a shadow map, and slots 1 and 2 are
  null, so the next frame starts as the first did.
\<close>

theorem shadow_map_roles_exclusive:
  "no_shadow_srv s \<Longrightarrow>
   (\<forall>t\<in>set (states (frames gs) s). read_phase_ok t \<and> \<not> hazard t) \<and>
   no_shadow_srv (exec (frames gs) s) \<and>
   (gs \<noteq> [] \<longrightarrow>
      shaderResources (exec (frames gs) s) 1 = None \<and>
      shaderResources (exec (frames gs) s) 2 = None)"
  using frames_states [of s gs] frames_end_slots [of gs s] read_phase_ok_no_hazard
  by blast

text \<open>
  In the second of two frames, just after the camera pass has bound both shadow maps for
  reading (37 commands into the frame), shadow map 1 is bound as a shader resource and the
  depth target is the main depth buffer.
\<close>

theorem shadow_map_roles_exclusive_witness:
  "no_shadow_srv initial_context \<and>
   exec (take 37 (RenderScene demo_globals)) (exec (RenderScene demo_globals) initial_context)
     \<in> set (states (frames [demo_globals, demo_globals]) initial_context) \<and>
   srv_bound (exec (take 37 (RenderScene demo_globals))
                (exec (RenderScene demo_globals) initial_context)) ShadowMap1SRV \<and>
   depthStencil (exec (take 37 (RenderScene demo_globals))
                   (exec (RenderScene demo_globals) initial_context)) = Some DepthStencil \<and>
   \<not> hazard (exec (take 37 (RenderScene demo_globals))
               (exec (RenderScene demo_globals) initial_context)) \<and>
   [demo_globals, demo_globals] \<noteq> [] \<and>
   shaderResources (exec (frames [demo_globals, demo_globals]) initial_context) 1 = None \<and>
   shaderResources (exec (frames [demo_globals, demo_globals]) initial_context) 2 = None"
proof -
  let ?t = "exec (take 37 (RenderScene demo_globals))
              (exec (RenderScene demo_globals) initial_context)"
  have f: "frames [demo_globals, demo_globals] = RenderScene demo_globals @ RenderScene demo_globals"
    by (simp add: frames_def)
  have m: "?t \<in> set (states (frames [demo_globals, demo_globals]) initial_context)"
    unfolding f states_append using exec_take_in_states by blast
  have b: "srv_bound ?t ShadowMap1SRV"
    unfolding srv_bound_def
    by (rule exI [of _ 1]) (simp add: frame_defs initial_context_def)
  show ?thesis
    using no_shadow_srv_initial m b
      shadow_map_roles_exclusive [of initial_context "[demo_globals, demo_globals]"]
    by (auto simp add: read_phase_ok_def)
qed

subsection \<open>Pipeline states between render groups\<close>

lemma camera_draws_append: "camera_draws (a @ b) = camera_draws a @ camera_draws b"
  by (induction a rule: camera_draws.induct) simp_all

lemma restored_between_append:
  "restored_between xs \<Longrightarrow> restored_between (y # ys) \<Longrightarrow> default_states y \<Longrightarrow>
   restored_between (xs @ y # ys)"
  by (induction xs rule: restored_between.induct) simp_all

lemma restored_between_nth:
  "restored_between xs \<Longrightarrow> Suc i < length xs \<Longrightarrow>
   \<not> default_states (xs ! i) \<Longrightarrow> pixelShader (xs ! i) \<noteq> pixelShader (xs ! Suc i) \<Longrightarrow>
   default_states (xs ! Suc i)"
proof (induction xs arbitrary: i rule: restored_between.induct)
  case (1 a b rest)
  then show ?case by (cases i) auto
qed simp_all

lemma frame_camera_draws:
  "\<exists>y ys. camera_draws (run (RenderScene g) s) = y # ys \<and> default_states y \<and>
          restored_between (y # ys)"
  by (simp add: frame_defs default_states_def)

lemma frames_restored: "restored_between (camera_draws (run (frames gs) s))"
proof (induction gs arbitrary: s rule: rev_induct)
  case Nil
  then show ?case by (simp add: frames_def)
next
  case (snoc g gs)
  obtain y ys where f: "camera_draws (run (RenderScene g) (exec (frames gs) s)) = y # ys"
      "default_states y" "restored_between (y # ys)"
    using frame_camera_draws by blast
  then show ?case
    using snoc [of s] restored_between_append
    by (simp add: frames_snoc run_append camera_draws_append)
qed

lemma all_draws_append: "all_draws (a @ b) = all_draws a @ all_draws b"
  by (induction a rule: all_draws.induct) simp_all

lemma blend_depth_restored_between_append:
  "blend_depth_restored_between xs \<Longrightarrow> blend_depth_restored_between (y # ys) \<Longrightarrow>
   blend_depth_default y \<Longrightarrow> blend_depth_restored_between (xs @ y # ys)"
  by (induction xs rule: blend_depth_restored_between.induct) simp_all

lemma blend_depth_restored_between_nth:
  "blend_depth_restored_between xs \<Longrightarrow> Suc i < length xs \<Longrightarrow>
   \<not> default_states (xs ! i) \<Longrightarrow> pixelShader (xs ! i) \<noteq> pixelShader (xs ! Suc i) \<Longrightarrow>
   blend_depth_default (xs ! Suc i)"
proof (induction xs arbitrary: i rule: blend_depth_restored_between.induct)
  case (1 a b rest)
  then show ?case by (cases i) auto
qed simp_all

lemma frame_all_draws:
  "\<exists>y ys. all_draws (run (RenderScene g) s) = y # ys \<and> blend_depth_default y \<and>
          blend_depth_restored_between (y # ys)"
  by (simp add: frame_defs default_states_def blend_depth_default_def)

lemma frames_blend_depth_restored:
  "blend_depth_restored_between (all_draws (run (frames gs) s))"
proof (induction gs arbitrary: s rule: rev_induct)
  case Nil
  then show ?case by (simp add: frames_def)
next
  case (snoc g gs)
  obtain y ys where f: "all_draws (run (RenderScene g) (exec (frames gs) s)) = y # ys"
      "blend_depth_default y" "blend_depth_restored_between (y # ys)"
    using frame_all_draws by blast
  then show ?case
    using snoc [of s] blend_depth_restored_between_append
    by (simp add: frames_snoc run_append all_draws_append)
qed

text \<open>
  C6, as amended. Over any number of frames from any context: in the sequence of
  camera-pass draws, whenever a draw issued under altered states (anything but back-face
  culling, no blending, depth writes on) is followed by a draw of another render group
  (another pixel shader), that next camera-pass draw is issued under the default states;
  and in the sequence of all draws, shadow passes included, the draw of another render
  group that follows a draw under altered states is issued with no blending and depth
  writes on. The states every draw of a frame is issued under are listed: the outline pass
  (front-face culling) is followed by the cell-shaded troll under the defaults; the light
  markers (no culling, additive blending, read-only depth) end the frame; the next frame
  starts with its shadow passes, which set no blending and depth writes and cull front
  faces, and its camera pass starts with the floor under the defaults.
\<close>

theorem render_group_states_restored:
  "restored_between (camera_draws (run (frames gs) s)) \<and>
   blend_depth_restored_between (all_draws (run (frames gs) s)) \<and>
   List.map_filter draw_state (run (RenderScene g) s) =
    [(Floor, Some DepthOnlyPixelShader, Some CullFrontState, Some NoBlendingState, Some UseDepthBufferState),
     (Teapot, Some DepthOnlyPixelShader, Some CullFrontState, Some NoBlendingState, Some UseDepthBufferState),
     (Sphere, Some DepthOnlyPixelShader, Some CullFrontState, Some NoBlendingState, Some UseDepthBufferState),
     (Cube, Some DepthOnlyPixelShader, Some CullFrontState, Some NoBlendingState, Some UseDepthBufferState),
     (Troll, Some DepthOnlyPixelShader, Some CullFrontState, Some NoBlendingState, Some UseDepthBufferState),
     (Floor, Some DepthOnlyPixelShader, Some CullFrontState, Some NoBlendingState, Some UseDepthBufferState),
     (Teapot, Some DepthOnlyPixelShader, Some CullFrontState, Some NoBlendingState, Some UseDepthBufferState),
     (Sphere, Some DepthOnlyPixelShader, Some CullFrontState, Some NoBlendingState, Some UseDepthBufferState),
     (Cube, Some DepthOnlyPixelShader, Some CullFrontState, Some NoBlendingState, Some UseDepthBufferState),
     (Troll, Some DepthOnlyPixelShader, Some CullFrontState, Some NoBlendingState, Some UseDepthBufferState),
     (Floor, Some PixelLightingPixelShader, Some CullBackState, Some NoBlendingState, Some UseDepthBufferState),
     (Teapot, Some PixelLightingPixelShader, Some CullBackState, Some NoBlendingState, Some UseDepthBufferState),
     (Cube, Some MixingTexturesPixelShader, Some CullBackState, Some NoBlendingState, Some UseDepthBufferState),
     (Sphere, Some ScrollingPixelShader, Some CullBackState, Some NoBlendingState, Some UseDepthBufferState),
     (Troll, Some CellShadingOutlinePixelShader, Some CullFrontState, Some NoBlendingState, Some UseDepthBufferState),
     (Troll, Some CellShadingPixelShader, Some CullBackState, Some NoBlendingState, Some UseDepthBufferState),
     (LightModel 0, Some LightModelPixelShader, Some CullNoneState, Some AdditiveBlendingState, Some DepthReadOnlyState),
     (LightModel 1, Some LightModelPixelShader, Some CullNoneState, Some AdditiveBlendingState, Some DepthReadOnlyState)]"
  by (intro conjI)
    (rule frames_restored, rule frames_blend_depth_restored,
     simp add: frame_defs List.map_filter_simps)

text \<open>
  Two frames from the empty context. The eighth camera-pass draw is the second light marker
  of the first frame, under altered states; the ninth is the floor of the second frame, by
  another pixel shader, under the defaults. Likewise the fifth (the outline) and the sixth.
  Among all draws the second light marker is the eighteenth, and the nineteenth, the
  second frame's first shadow-pass draw, has no blending and depth writes on.
\<close>

theorem render_group_states_restored_witness:
  "Suc 7 < length (camera_draws (run (frames [demo_globals, demo_globals]) initial_context)) \<and>
   \<not> default_states (camera_draws (run (frames [demo_globals, demo_globals]) initial_context) ! 7) \<and>
   pixelShader (camera_draws (run (frames [demo_globals, demo_globals]) initial_context) ! 7) \<noteq>
     pixelShader (camera_draws (run (frames [demo_globals, demo_globals]) initial_context) ! Suc 7) \<and>
   default_states (camera_draws (run (frames [demo_globals, demo_globals]) initial_context) ! Suc 7) \<and>
   \<not> default_states (camera_draws (run (frames [demo_globals, demo_globals]) initial_context) ! 4) \<and>
   pixelShader (camera_draws (run (frames [demo_globals, demo_globals]) initial_context) ! 4) \<noteq>
     pixelShader (camera_draws (run (frames [demo_globals, demo_globals]) initial_context) ! Suc 4) \<and>
   default_states (camera_draws (run (frames [demo_globals, demo_globals]) initial_context) ! Suc 4) \<and>
   Suc 17 < length (all_draws (run (frames [demo_globals, demo_globals]) initial_context)) \<and>
   \<not> default_states (all_draws (run (frames [demo_globals, demo_globals]) initial_context) ! 17) \<and>
   pixelShader (all_draws (run (frames [demo_globals, demo_globals]) initial_context) ! 17) \<noteq>
     pixelShader (all_draws (run (frames [demo_globals, demo_globals]) initial_context) ! Suc 17) \<and>
   blend_depth_default (all_draws (run (frames [demo_globals, demo_globals]) initial_context) ! Suc 17)"
proof -
  let ?ds = "camera_draws (run (frames [demo_globals, demo_globals]) initial_context)"
  let ?as = "all_draws (run (frames [demo_globals, demo_globals]) initial_context)"
  have r: "restored_between ?ds"
    using render_group_states_restored [of "[demo_globals, demo_globals]" initial_context]
    by blast
  have q: "blend_depth_restored_between ?as"
    using render_group_states_restored [of "[demo_globals, demo_globals]" initial_context]
    by blast
  have n: "Suc 7 < length ?ds" "Suc 4 < length ?ds"
    by (simp_all add: frames_def frame_defs initial_context_def)
  have a7: "\<not> default_states (?ds ! 7)" "pixelShader (?ds ! 7) \<noteq> pixelShader (?ds ! Suc 7)"
    by (simp_all add: frames_def frame_defs initial_context_def default_states_def)
  have a4: "\<not> default_states (?ds ! 4)" "pixelShader (?ds ! 4) \<noteq> pixelShader (?ds ! Suc 4)"
    by (simp_all add: frames_def frame_defs initial_context_def default_states_def)
  have m: "Suc 17 < length ?as"
    by (simp add: frames_def frame_defs initial_context_def)
  have a17: "\<not> default_states (?as ! 17)" "pixelShader (?as ! 17) \<noteq> pixelShader (?as ! Suc 17)"
    by (simp_all add: frames_def frame_defs initial_context_def default_states_def)
  show ?thesis
    using n a7 a4 m a17 restored_between_nth [OF r n(1) a7] restored_between_nth [OF r n(2) a4]
      blend_depth_restored_between_nth [OF q m a17]
    by blast
qed

text \<open>
  C6 as stated fails once the shadow passes count among the render groups. Two frames from
  the empty context: the eighteenth draw is the second light marker of the first frame,
  under no culling, additive blending and read-only depth; the draw issued next is the
  floor of the second frame's first shadow pass, by the depth-only pixel shader, and it is
  issued under front-face culling, not back-face culling.
\<close>

theorem shadow_pass_culling_counterexample:
  "pixelShader (all_draws (run (frames [demo_globals, demo_globals]) initial_context) ! 17) =
     Some LightModelPixelShader \<and>
   \<not> default_states (all_draws (run (frames [demo_globals, demo_globals]) initial_context) ! 17) \<and>
   pixelShader (all_draws (run (frames [demo_globals, demo_globals]) initial_context) ! 18) =
     Some DepthOnlyPixelShader \<and>
   depthStencil (all_draws (run (frames [demo_globals, demo_globals]) initial_context) ! 18) =
     Some ShadowMap1DepthStencil \<and>
   rasterizerState (all_draws (run (frames [demo_globals, demo_globals]) initial_context) ! 18) =
     Some CullFrontState \<and>
   \<not> default_states (all_draws (run (frames [demo_globals, demo_globals]) initial_context) ! 18) \<and>
   \<not> restored_between (all_draws (run (frames [demo_globals, demo_globals]) initial_context))"
  by (simp add: frames_def frame_defs initial_context_def default_states_def)

section \<open>Properties of the initialisation\<close>

lemma construct_meshes_None:
  "(construct_meshes env fs = None) = (\<forall>f\<in>set fs. Mesh_throws env f = None)"
  by (induction fs) (auto split: option.splits)

lemma construct_meshes_Some:
  "construct_meshes env fs = Some what \<Longrightarrow> \<exists>f\<in>set fs. Mesh_throws env f = Some what"
  by (induction fs) (auto split: option.splits)

lemma LoadVertexShader_None: "(LoadVertexShader env n = None) = (\<not> shader_loads env True n)"
  by (simp add: LoadVertexShader_def shader_loads_def Let_def)

lemma LoadPixelShader_None: "(LoadPixelShader env n = None) = (\<not> shader_loads env False n)"
  by (simp add: LoadPixelShader_def shader_loads_def Let_def)

lemma LoadShaders_fst:
  "fst (LoadShaders env e) =
     ((\<forall>n\<in>set vertex_shader_names. shader_loads env True n) \<and>
      (\<forall>n\<in>set pixel_shader_names. shader_loads env False n))"
  unfolding LoadShaders_def Let_def LoadVertexShader_None LoadPixelShader_None
    vertex_shader_names_def pixel_shader_names_def
  by (simp only: list.set ball_simps bex_simps split: if_splits) auto

lemma LoadShaders_snd:
  "snd (LoadShaders env e) = (if fst (LoadShaders env e) then e else ''Error loading shaders'')"
  by (simp add: LoadShaders_def Let_def)

lemma CreateConstantBuffer_None:
  "(CreateConstantBuffer env n = None) = CreateBuffer_FAILED env (16 * ((n + 15) div 16))"
  by (simp add: CreateConstantBuffer_def Let_def)

lemma textures_all:
  "(\<forall>t\<in>set texture_files. LoadTexture env (fst t) (snd t)) =
     (LoadTexture env ''Textures/PatternDiffuseSpecular.dds'' ''gTeapotDiffuseSpecularMap'' \<and>
      LoadTexture env ''Textures/PatternDiffuseSpecular.dds'' ''gSphereDiffuseSpecularMap'' \<and>
      LoadTexture env ''Textures/StoneDiffuseSpecular.dds'' ''gCubeDiffuseSpecularMap'' \<and>
      LoadTexture env ''Textures/WoodDiffuseSpecular.dds'' ''gFloorDiffuseSpecularMap'' \<and>
      LoadTexture env ''Textures/Flare.jpg'' ''gLightDiffuseMap'' \<and>
      LoadTexture env ''Textures/Green.png'' ''gTrollDiffuseMap'' \<and>
      LoadTexture env ''Textures/CellGradient.png'' ''gCellMap'')"
  unfolding texture_files_def by (simp only: list.set ball_simps fst_conv snd_conv) simp

lemma InitGeometry_mesh_throw:
  "construct_meshes env mesh_files = Some what \<Longrightarrow> InitGeometry env e0 = (False, what)"
  by (simp add: InitGeometry_def)

lemma InitGeometry_shaders_fail:
  "construct_meshes env mesh_files = None \<Longrightarrow> \<not> fst (LoadShaders env e0) \<Longrightarrow>
   InitGeometry env e0 = (False, ''Error loading shaders'')"
  by (simp add: InitGeometry_def split_beta)

lemma InitGeometry_rest_fst:
  "construct_meshes env mesh_files = None \<Longrightarrow> fst (LoadShaders env e0) \<Longrightarrow>
   fst (InitGeometry env e0) = rest_ok env"
  unfolding rest_ok_def textures_all
  by (auto simp add: InitGeometry_def Let_def split_beta CreateConstantBuffer_None)

lemma InitGeometry_rest_snd:
  "construct_meshes env mesh_files = None \<Longrightarrow> fst (LoadShaders env e0) \<Longrightarrow>
   snd (InitGeometry env e0) = e0 \<and> fst (InitGeometry env e0) \<or>
   snd (InitGeometry env e0) \<in> set error_messages \<and> \<not> fst (InitGeometry env e0)"
  using LoadShaders_snd [of env e0]
  by (simp add: InitGeometry_def Let_def split_beta error_messages_def)

lemma InitGeometry_fst: "fst (InitGeometry env e0) = every_step_succeeds env"
proof (cases "construct_meshes env mesh_files")
  case (Some what)
  then have "\<not> (\<forall>f\<in>set mesh_files. Mesh_throws env f = None)"
    using construct_meshes_None [of env mesh_files] by simp
  then have "\<not> every_step_succeeds env"
    unfolding every_step_succeeds_def by blast
  then show ?thesis using InitGeometry_mesh_throw [OF Some] by simp
next
  case None
  then have m: "\<forall>f\<in>set mesh_files. Mesh_throws env f = None"
    using construct_meshes_None [of env mesh_files] by simp
  have e: "every_step_succeeds env = (fst (LoadShaders env e0) \<and> rest_ok env)"
    unfolding every_step_succeeds_def rest_ok_def LoadShaders_fst using m by blast
  show ?thesis
  proof (cases "fst (LoadShaders env e0)")
    case False
    then show ?thesis using InitGeometry_shaders_fail [OF None False] e by simp
  next
    case True
    then show ?thesis using InitGeometry_rest_fst [OF None True] e by simp
  qed
qed

lemma InitGeometry_snd_ok:
  assumes ok: "fst (InitGeometry env e0)"
  shows "snd (InitGeometry env e0) = e0"
proof -
  have n: "construct_meshes env mesh_files = None"
  proof (cases "construct_meshes env mesh_files")
    case None
    then show ?thesis .
  next
    case (Some what)
    then show ?thesis using InitGeometry_mesh_throw [OF Some, of e0] ok by simp
  qed
  have l: "fst (LoadShaders env e0)"
  proof (rule ccontr)
    assume "\<not> fst (LoadShaders env e0)"
    from InitGeometry_shaders_fail [OF n this] ok show False by simp
  qed
  show ?thesis using InitGeometry_rest_snd [OF n l] ok by blast
qed

lemma InitGeometry_snd_fail:
  assumes f: "\<not> fst (InitGeometry env e0)"
  shows "snd (InitGeometry env e0) \<in> set error_messages \<or>
         (\<exists>m\<in>set mesh_files. Mesh_throws env m = Some (snd (InitGeometry env e0)))"
proof (cases "construct_meshes env mesh_files")
  case (Some what)
  from construct_meshes_Some [OF Some] InitGeometry_mesh_throw [OF Some, of e0] show ?thesis
    by simp
next
  case None
  show ?thesis
  proof (cases "fst (LoadShaders env e0)")
    case False
    then show ?thesis
      using InitGeometry_shaders_fail [OF None False] by (simp add: error_messages_def)
  next
    case True
    then show ?thesis using InitGeometry_rest_snd [OF None True] f by blast
  qed
qed

text \<open>
  C8. \<open>InitGeometry\<close> returns true exactly when every step succeeds: the six mesh loads,
  the twelve shader loads, the two constant buffers, the seven texture loads, the texture,
  depth-stencil view and shader resource view of each shadow map, and the states. When it
  returns true \<open>gLastError\<close> is untouched. When it returns false \<open>gLastError\<close> holds
  a message: the one of the \<open>std::runtime_error\<close> a mesh constructor threw, or one of
  the seven fixed, non-empty texts that name the failed step; a fixed text it is whenever
  no mesh constructor throws.
\<close>

theorem InitGeometry_reports_failure:
  "fst (InitGeometry env e0) = every_step_succeeds env \<and>
   (fst (InitGeometry env e0) \<longrightarrow> snd (InitGeometry env e0) = e0) \<and>
   (\<not> fst (InitGeometry env e0) \<longrightarrow>
      snd (InitGeometry env e0) \<in> set error_messages \<or>
      (\<exists>m\<in>set mesh_files. Mesh_throws env m = Some (snd (InitGeometry env e0)))) \<and>
   (\<not> fst (InitGeometry env e0) \<longrightarrow> (\<forall>m\<in>set mesh_files. Mesh_throws env m = None) \<longrightarrow>
      snd (InitGeometry env e0) \<in> set error_messages) \<and>
   (\<forall>msg\<in>set error_messages. msg \<noteq> [])"
proof (intro conjI impI)
  show "fst (InitGeometry env e0) = every_step_succeeds env"
    by (rule InitGeometry_fst)
  show "snd (InitGeometry env e0) = e0" if "fst (InitGeometry env e0)"
    using that by (rule InitGeometry_snd_ok)
  show "snd (InitGeometry env e0) \<in> set error_messages \<or>
      (\<exists>m\<in>set mesh_files. Mesh_throws env m = Some (snd (InitGeometry env e0)))"
    if "\<not> fst (InitGeometry env e0)"
    using that by (rule InitGeometry_snd_fail)
  show "snd (InitGeometry env e0) \<in> set error_messages"
    if "\<not> fst (InitGeometry env e0)" "\<forall>m\<in>set mesh_files. Mesh_throws env m = None"
    using InitGeometry_snd_fail [OF that(1)] that(2) by auto
  show "\<forall>msg\<in>set error_messages. msg \<noteq> []"
    by (simp add: error_messages_def)
qed

text \<open>
  With every call succeeding the result is true and the error text is as it was; with the
  flare texture missing it is false with one of the fixed texts; with the troll mesh
  throwing it is false with the text of the exception.
\<close>

theorem InitGeometry_reports_failure_witness:
  "every_step_succeeds env_ok \<and> InitGeometry env_ok ''none'' = (True, ''none'') \<and>
   \<not> every_step_succeeds env_no_flare \<and> \<not> fst (InitGeometry env_no_flare ''none'') \<and>
   snd (InitGeometry env_no_flare ''none'') \<in> set error_messages \<and>
   snd (InitGeometry env_no_flare ''none'') \<noteq> [] \<and>
   \<not> every_step_succeeds env_no_troll \<and> \<not> fst (InitGeometry env_no_troll ''none'') \<and>
   Mesh_throws env_no_troll ''Models/troll.x'' = Some (snd (InitGeometry env_no_troll ''none''))"
proof -
  have a: "every_step_succeeds env_ok"
    by (simp add: every_step_succeeds_def env_ok_def mesh_files_def vertex_shader_names_def
        pixel_shader_names_def texture_files_def shader_loads_def)
  have b: "\<not> every_step_succeeds env_no_flare"
    by (simp add: every_step_succeeds_def env_no_flare_def env_ok_def texture_files_def)
  have c: "\<forall>m\<in>set mesh_files. Mesh_throws env_no_flare m = None"
    by (simp add: env_no_flare_def env_ok_def)
  have d: "\<not> every_step_succeeds env_no_troll"
    by (simp add: every_step_succeeds_def env_no_troll_def env_ok_def mesh_files_def)
  have e: "Mesh_throws env_no_troll ''Models/troll.x'' = Some (snd (InitGeometry env_no_troll ''none''))"
    by (simp add: InitGeometry_def mesh_files_def env_no_troll_def env_ok_def)
  show ?thesis
    using a b c d e
      InitGeometry_reports_failure [of env_ok "''none''"]
      InitGeometry_reports_failure [of env_no_flare "''none''"]
      InitGeometry_reports_failure [of env_no_troll "''none''"]
    by (auto simp add: prod_eq_iff)
qed


end
